theory Spec2Isabelle
  imports Main "HOL-Library.Word" "HOL-Library.Signed_Division"
begin

unbundle bit_operations_syntax

section \<open>la\_window.h: data model\<close>

text \<open>
  The header is a single-file window library for Win32.  The embedding follows the
  64-bit build of the Makefile (\<^verbatim>\<open>-m64\<close>): \<^verbatim>\<open>UINT\<close> and \<^verbatim>\<open>int\<close>
  are 32-bit words, \<^verbatim>\<open>WPARAM\<close>, \<^verbatim>\<open>LPARAM\<close> and \<^verbatim>\<open>LRESULT\<close> are 64-bit
  words.  A nullable pointer is an \<open>option\<close>: \<open>None\<close> is \<^verbatim>\<open>NULL\<close>.
\<close>

type_synonym UINT = "32 word"
type_synonym cint = "32 word"
type_synonym WPARAM = "64 word"
type_synonym LPARAM = "64 word"
type_synonym LRESULT = "64 word"

text \<open>Window handles (\<^verbatim>\<open>law_Window\<close>, \<^verbatim>\<open>HWND\<close>), addresses of \<^verbatim>\<open>malloc\<close> blocks
  and addresses of functions.\<close>

type_synonym HWND = nat
type_synonym addr = nat
type_synonym fptr = nat

text \<open>What stops a run: a failed \<^verbatim>\<open>assert\<close> (builds without \<^verbatim>\<open>NDEBUG\<close>), and the
  undefined behaviours of C that the code can reach.\<close>

datatype fault =
    AssertionFailed
  | NullDereference
  | DanglingDereference
  | NullCall
  | InvalidFree
  | BufferOverrun
  | UninitialisedRead

subsection \<open>Event table and window data\<close>

record law_WindowEvents =
  window_destroy :: "fptr option"
  window_close :: "fptr option"
  window_resize :: "fptr option"
  window_move :: "fptr option"
  window_focus :: "fptr option"
  window_unfocus :: "fptr option"
  window_redraw :: "fptr option"
  window_minimize :: "fptr option"
  window_maximize :: "fptr option"
  window_show :: "fptr option"
  window_hide :: "fptr option"
  window_file_drop :: "fptr option"
  window_touch :: "fptr option"

record law_KeyboardEvents =
  key_down :: "fptr option"
  key_up :: "fptr option"

record law_MouseEvents =
  mouse_move :: "fptr option"
  mouse_down :: "fptr option"
  mouse_up :: "fptr option"
  mouse_wheel :: "fptr option"

record law_Events =
  window :: law_WindowEvents
  key :: law_KeyboardEvents
  mouse :: law_MouseEvents
  pen :: "fptr option"

record law_Data =
  event :: law_Events
  running :: cint
  user_data :: "addr option"

definition LAW_MOUSE_LEFT :: cint where "LAW_MOUSE_LEFT = 1"
definition LAW_MOUSE_RIGHT :: cint where "LAW_MOUSE_RIGHT = 2"
definition LAW_MOUSE_MIDDLE :: cint where "LAW_MOUSE_MIDDLE = 3"
definition LAW_MOUSE_X1 :: cint where "LAW_MOUSE_X1 = 4"
definition LAW_MOUSE_X2 :: cint where "LAW_MOUSE_X2 = 5"

text \<open>\<^verbatim>\<open>enum law_ErrorCode\<close>.\<close>

definition LAW_ERROR_NONE :: UINT where "LAW_ERROR_NONE = 0"
definition LAW_ERROR_CREATE_WINDOW :: UINT where "LAW_ERROR_CREATE_WINDOW = 1"
definition LAW_ERROR_ALLOCATE_MEMORY_FOR_PARAMS :: UINT where
  "LAW_ERROR_ALLOCATE_MEMORY_FOR_PARAMS = 2"
definition LAW_ERROR_REGISTER_WINDOW_CLASS :: UINT where
  "LAW_ERROR_REGISTER_WINDOW_CLASS = 3"

text \<open>\<^verbatim>\<open>law_initEvents\<close> assigns \<^verbatim>\<open>NULL\<close> to every member of the structure it is
  given; the argument is the previous content of that memory.\<close>

definition law_initEvents :: "law_Events \<Rightarrow> law_Events" where
  "law_initEvents events =
     events\<lparr>window := (window events)\<lparr>window_destroy := None, window_close := None,
                window_resize := None, window_move := None, window_focus := None,
                window_unfocus := None, window_redraw := None, window_minimize := None,
                window_maximize := None, window_show := None, window_hide := None,
                window_file_drop := None, window_touch := None\<rparr>,
            key := (key events)\<lparr>key_down := None, key_up := None\<rparr>,
            mouse := (mouse events)\<lparr>mouse_move := None, mouse_down := None,
                mouse_up := None, mouse_wheel := None\<rparr>,
            pen := None\<rparr>"

section \<open>Error messages\<close>

text \<open>
  \<^verbatim>\<open>law_getErrorMsg\<close> returns a pointer into \<^verbatim>\<open>error_arena\<close>, one string literal
  that the compiler builds from four adjacent literals.  Each of them ends in an
  explicit \<^verbatim>\<open>\0\<close>; adjacent literals are joined without a terminator in between, and
  one terminator closes the whole.  The table \<^verbatim>\<open>__not_used__\<close> holds the same four
  messages as separate strings.
\<close>

definition NUL :: char where
  "NUL = CHR 0x00"

definition error_arena :: string where
  "error_arena =
     ''No error =)'' @ [NUL] @
     ''Failed to create window'' @ [NUL] @
     ''Failed to allocate memory for window parameters'' @ [NUL] @
     ''Failed to register window class'' @ [NUL] @
     [NUL]"

definition not_used :: "string list" where
  "not_used =
     [''No error =)'' @ [NUL],
      ''Failed to create window'' @ [NUL],
      ''Failed to allocate memory for window parameters'' @ [NUL],
      ''Failed to register window class'' @ [NUL]]"

definition indices :: "16 word list" where
  "indices = [0, 13, 38, 87]"

text \<open>The string a \<^verbatim>\<open>const char*\<close> designates: the bytes from the pointer up to the
  first \<^verbatim>\<open>\0\<close>.\<close>

definition c_str :: "string \<Rightarrow> nat \<Rightarrow> string" where
  "c_str mem off = takeWhile (\<lambda>c. c \<noteq> NUL) (drop off mem)"

text \<open>The first argument says whether \<^verbatim>\<open>NDEBUG\<close> is defined, that is whether
  \<^verbatim>\<open>assert\<close> expands to nothing.  The result is the string at the returned pointer.\<close>

definition law_getErrorMsg :: "bool \<Rightarrow> UINT \<Rightarrow> fault + string" where
  "law_getErrorMsg ndebug error_code =
     (if \<not> ndebug \<and> \<not> (0 \<le> error_code \<and> error_code < 3) then Inl AssertionFailed
      else if unat error_code < length indices
        then Inr (c_str error_arena (unat (indices ! unat error_code)))
        else Inr ''Unknown error'')"

text \<open>The message the source's table designates for a code.\<close>

definition designated_msg :: "UINT \<Rightarrow> string" where
  "designated_msg error_code =
     (if unat error_code < length not_used then c_str (not_used ! unat error_code) 0
      else ''Unknown error'')"

section \<open>The native backend and the process state\<close>

text \<open>Values of \<^verbatim>\<open>windows.h\<close> that the header uses.\<close>

definition WM_CREATE :: UINT where "WM_CREATE = 0x0001"
definition WM_DESTROY :: UINT where "WM_DESTROY = 0x0002"
definition WM_MOVE :: UINT where "WM_MOVE = 0x0003"
definition WM_SIZE :: UINT where "WM_SIZE = 0x0005"
definition WM_SETFOCUS :: UINT where "WM_SETFOCUS = 0x0007"
definition WM_KILLFOCUS :: UINT where "WM_KILLFOCUS = 0x0008"
definition WM_PAINT :: UINT where "WM_PAINT = 0x000F"
definition WM_CLOSE :: UINT where "WM_CLOSE = 0x0010"
definition WM_QUIT :: UINT where "WM_QUIT = 0x0012"
definition WM_SHOWWINDOW :: UINT where "WM_SHOWWINDOW = 0x0018"
definition WM_KEYDOWN :: UINT where "WM_KEYDOWN = 0x0100"
definition WM_KEYUP :: UINT where "WM_KEYUP = 0x0101"
definition WM_SYSCOMMAND :: UINT where "WM_SYSCOMMAND = 0x0112"
definition WM_MOUSEMOVE :: UINT where "WM_MOUSEMOVE = 0x0200"
definition WM_LBUTTONDOWN :: UINT where "WM_LBUTTONDOWN = 0x0201"
definition WM_LBUTTONUP :: UINT where "WM_LBUTTONUP = 0x0202"
definition WM_RBUTTONDOWN :: UINT where "WM_RBUTTONDOWN = 0x0204"
definition WM_RBUTTONUP :: UINT where "WM_RBUTTONUP = 0x0205"
definition WM_MBUTTONDOWN :: UINT where "WM_MBUTTONDOWN = 0x0207"
definition WM_MBUTTONUP :: UINT where "WM_MBUTTONUP = 0x0208"
definition WM_MOUSEWHEEL :: UINT where "WM_MOUSEWHEEL = 0x020A"
definition WM_XBUTTONDOWN :: UINT where "WM_XBUTTONDOWN = 0x020B"
definition WM_XBUTTONUP :: UINT where "WM_XBUTTONUP = 0x020C"
definition WM_DROPFILES :: UINT where "WM_DROPFILES = 0x0233"
definition WM_TOUCH :: UINT where "WM_TOUCH = 0x0240"
definition WM_POINTERUPDATE :: UINT where "WM_POINTERUPDATE = 0x0245"

definition SC_MINIMIZE :: UINT where "SC_MINIMIZE = 0xF020"
definition SC_MAXIMIZE :: UINT where "SC_MAXIMIZE = 0xF030"
definition XBUTTON1 :: "16 word" where "XBUTTON1 = 0x0001"

definition LOWORD :: "64 word \<Rightarrow> 16 word" where
  "LOWORD l = ucast l"

definition HIWORD :: "64 word \<Rightarrow> 16 word" where
  "HIWORD l = ucast (drop_bit 16 l)"

definition GET_XBUTTON_WPARAM :: "WPARAM \<Rightarrow> 16 word" where
  "GET_XBUTTON_WPARAM wParam = HIWORD wParam"

text \<open>\<^verbatim>\<open>(short)HIWORD(wParam)\<close>, passed as an \<^verbatim>\<open>int\<close>.\<close>

definition GET_WHEEL_DELTA_WPARAM :: "WPARAM \<Rightarrow> cint" where
  "GET_WHEEL_DELTA_WPARAM wParam = scast (HIWORD wParam)"

definition GET_POINTERID_WPARAM :: "WPARAM \<Rightarrow> UINT" where
  "GET_POINTERID_WPARAM wParam = ucast (LOWORD wParam)"

record MSG =
  msg_hwnd :: "HWND option"
  msg_message :: UINT
  msg_wParam :: WPARAM
  msg_lParam :: LPARAM

record TOUCHINPUT =
  touch_x :: cint
  touch_y :: cint
  touch_dwID :: "32 word"
  touch_dwMask :: "32 word"

record POINTER_PEN_INFO =
  pressure :: "32 word"
  tiltX :: cint
  tiltY :: cint

text \<open>A native window, as far as the header reads and writes it: the per-window slot
  \<^verbatim>\<open>GWLP_USERDATA\<close>, which is 0 until \<^verbatim>\<open>SetWindowLongPtrW\<close> stores a pointer, and
  the window text.\<close>

record native_window =
  GWLP_USERDATA :: "addr option"
  window_text :: "string option"

text \<open>The arguments of a callback, one constructor for each function-pointer type of
  the header, and \<open>FuncInt\<close> for the exit function \<^verbatim>\<open>void (*)(int)\<close>.\<close>

datatype cb_args =
    FuncWinData HWND addr
  | FuncWinDataInt HWND addr cint
  | FuncWinDataIntInt HWND addr cint cint
  | FuncWinDataUintIntIntInt HWND addr UINT cint cint cint
  | FuncInt cint

text \<open>What the library does to its surroundings, in the order it does it.\<close>

datatype effect =
    Registered bool
  | Created "HWND option"
  | Invoked fptr cb_args
  | DefaultHandling HWND UINT WPARAM LPARAM
  | DestroyRequested HWND
  | Freed addr
  | TouchHandleClosed LPARAM
  | Maximized HWND

text \<open>
  The process: the globals \<^verbatim>\<open>law_error\<close> and \<^verbatim>\<open>__law_exit_func\<close>, the static
  \<^verbatim>\<open>class_registered\<close> of \<^verbatim>\<open>law_create\<close>, the live \<^verbatim>\<open>malloc\<close> blocks, the native
  windows, the pending messages of the thread, and what the backend will answer: the
  outcomes of the coming calls of \<^verbatim>\<open>RegisterClassW\<close>, \<^verbatim>\<open>CreateWindowExW\<close> and
  \<^verbatim>\<open>malloc\<close> (an exhausted list answers failure), the touch points behind a touch
  handle and the pen data of a pointer.  \<open>trace\<close> records the effects.
\<close>

record world =
  law_error :: UINT
  law_exit_func :: "fptr option"
  class_registered :: "8 word"
  heap :: "addr \<rightharpoonup> law_Data"
  windows :: "HWND \<rightharpoonup> native_window"
  queue :: "MSG list"
  register_results :: "bool list"
  create_results :: "HWND option list"
  malloc_results :: "(addr \<times> law_Data) option list"
  touch_input_info :: "LPARAM \<rightharpoonup> TOUCHINPUT list"
  pointer_pen_info :: "UINT \<rightharpoonup> POINTER_PEN_INFO"
  trace :: "effect list"

text \<open>The application's code: what the function at an address does to the process when
  it is called with the given arguments.\<close>

type_synonym program = "fptr \<Rightarrow> cb_args \<Rightarrow> world \<Rightarrow> world"

definition emit :: "effect \<Rightarrow> world \<Rightarrow> world" where
  "emit e w = w\<lparr>trace := trace w @ [e]\<rparr>"

definition invoke :: "program \<Rightarrow> fptr \<Rightarrow> cb_args \<Rightarrow> world \<Rightarrow> world" where
  "invoke code f a w = code f a (emit (Invoked f a) w)"

definition GetWindowLongPtrW :: "HWND \<Rightarrow> world \<Rightarrow> addr option" where
  "GetWindowLongPtrW hwnd w =
     (case windows w hwnd of None \<Rightarrow> None | Some nw \<Rightarrow> GWLP_USERDATA nw)"

definition SetWindowLongPtrW :: "HWND \<Rightarrow> addr option \<Rightarrow> world \<Rightarrow> world" where
  "SetWindowLongPtrW hwnd v w =
     (case windows w hwnd of None \<Rightarrow> w
      | Some nw \<Rightarrow> w\<lparr>windows := (windows w)(hwnd \<mapsto> nw\<lparr>GWLP_USERDATA := v\<rparr>)\<rparr>)"

text \<open>Default handling is the backend's own business; the model records that it was
  asked for and answers 0.\<close>

definition DefWindowProcW ::
  "HWND \<Rightarrow> UINT \<Rightarrow> WPARAM \<Rightarrow> LPARAM \<Rightarrow> world \<Rightarrow> LRESULT \<times> world" where
  "DefWindowProcW hwnd uMsg wParam lParam w =
     (0, emit (DefaultHandling hwnd uMsg wParam lParam) w)"

definition malloc :: "world \<Rightarrow> (addr \<times> law_Data) option \<times> world" where
  "malloc w =
     (case malloc_results w of [] \<Rightarrow> (None, w)
      | r # rs \<Rightarrow> (r, w\<lparr>malloc_results := rs\<rparr>))"

definition free :: "addr \<Rightarrow> world \<Rightarrow> fault + world" where
  "free p w =
     (if p \<in> dom (heap w) then Inr (emit (Freed p) (w\<lparr>heap := (heap w)(p := None)\<rparr>))
      else Inl InvalidFree)"

definition RegisterClassW :: "world \<Rightarrow> bool \<times> world" where
  "RegisterClassW w =
     (case register_results w of [] \<Rightarrow> (False, emit (Registered False) w)
      | r # rs \<Rightarrow> (r, emit (Registered r) (w\<lparr>register_results := rs\<rparr>)))"

section \<open>The message dispatcher\<close>

type_synonym wndproc_result = "fault + LRESULT \<times> world"

text \<open>
  The macro \<^verbatim>\<open>EVENT\<close> is the content of \<^verbatim>\<open>GWLP_USERDATA\<close> cast to a pointer to the
  event table, which is the first member of \<^verbatim>\<open>law_Data\<close>.  Every wrapper reads a
  member through it, so the model of the macro is the read: it fails on a null pointer
  and on a pointer to a block that is not live, and it gives the pointer together with
  the table it points to.
\<close>

definition EVENT :: "HWND \<Rightarrow> world \<Rightarrow> fault + addr \<times> law_Events" where
  "EVENT hwnd w =
     (case GetWindowLongPtrW hwnd w of
        None \<Rightarrow> Inl NullDereference
      | Some p \<Rightarrow>
          (case heap w p of None \<Rightarrow> Inl DanglingDereference
           | Some d \<Rightarrow> Inr (p, event d)))"

text \<open>
  The body shared by the wrappers of one slot and one call:
  \<^verbatim>\<open>if (!EVENT->slot) return DefWindowProcW(...);\<close>
  \<^verbatim>\<open>win_data = GetWindowLongPtrW(...); EVENT->slot(window, win_data, ...); return 0;\<close>
\<close>

definition wrapper ::
  "program \<Rightarrow> (law_Events \<Rightarrow> fptr option) \<Rightarrow> (HWND \<Rightarrow> addr \<Rightarrow> cb_args) \<Rightarrow>
   HWND \<Rightarrow> UINT \<Rightarrow> WPARAM \<Rightarrow> LPARAM \<Rightarrow> world \<Rightarrow> wndproc_result" where
  "wrapper code slot args hwnd uMsg wParam lParam w =
     (case EVENT hwnd w of
        Inl e \<Rightarrow> Inl e
      | Inr (win_data, events) \<Rightarrow>
          (case slot events of
             None \<Rightarrow> Inr (DefWindowProcW hwnd uMsg wParam lParam w)
           | Some f \<Rightarrow> Inr (0, invoke code f (args hwnd win_data) w)))"

definition law_wrapperDestroy ::
  "program \<Rightarrow> HWND \<Rightarrow> UINT \<Rightarrow> WPARAM \<Rightarrow> LPARAM \<Rightarrow> world \<Rightarrow> wndproc_result" where
  "law_wrapperDestroy code hwnd uMsg wParam lParam w =
     (case EVENT hwnd w of
        Inl e \<Rightarrow> Inl e
      | Inr (win_data, events) \<Rightarrow>
          (case window_destroy (window events) of
             None \<Rightarrow> Inr (DefWindowProcW hwnd uMsg wParam lParam w)
           | Some f \<Rightarrow>
               (case free win_data (invoke code f (FuncWinData hwnd win_data) w) of
                  Inl e \<Rightarrow> Inl e
                | Inr w' \<Rightarrow> Inr (0, w'))))"

text \<open>
  \<^verbatim>\<open>DestroyWindow\<close> of the backend: the destruction notification is raised
  synchronously, that is the window procedure runs on \<^verbatim>\<open>WM_DESTROY\<close> before the call
  returns, and \<^verbatim>\<open>__law_proc\<close> sends \<^verbatim>\<open>WM_DESTROY\<close> to \<^verbatim>\<open>__law_wrapperDestroy\<close>.
  Then the window is gone.  A handle that names no window fails without a notification.
\<close>

definition DestroyWindow :: "program \<Rightarrow> HWND \<Rightarrow> world \<Rightarrow> fault + world" where
  "DestroyWindow code hwnd w =
     (let w0 = emit (DestroyRequested hwnd) w in
      if windows w0 hwnd = None then Inr w0
      else
        (case law_wrapperDestroy code hwnd WM_DESTROY 0 0 w0 of
           Inl e \<Rightarrow> Inl e
         | Inr (r, w1) \<Rightarrow> Inr (w1\<lparr>windows := (windows w1)(hwnd := None)\<rparr>)))"

definition law_wrapperCreate ::
  "bool \<Rightarrow> program \<Rightarrow> HWND \<Rightarrow> UINT \<Rightarrow> WPARAM \<Rightarrow> LPARAM \<Rightarrow> world \<Rightarrow> wndproc_result" where
  "law_wrapperCreate ndebug code hwnd uMsg wParam lParam w =
     (case malloc w of
        (None, w1) \<Rightarrow>
          if \<not> ndebug then Inl AssertionFailed
          else
            (case DestroyWindow code hwnd w1 of
               Inl e \<Rightarrow> Inl e
             | Inr w2 \<Rightarrow> Inr (0, w2\<lparr>law_error := LAW_ERROR_ALLOCATE_MEMORY_FOR_PARAMS\<rparr>))
      | (Some (win_data, garbage), w1) \<Rightarrow>
          Inr (0, SetWindowLongPtrW hwnd (Some win_data)
                    (w1\<lparr>heap := (heap w1)(win_data \<mapsto>
                       garbage\<lparr>event := law_initEvents (event garbage),
                               running := 1, user_data := None\<rparr>)\<rparr>)))"

definition law_wrapperClose ::
  "program \<Rightarrow> HWND \<Rightarrow> UINT \<Rightarrow> WPARAM \<Rightarrow> LPARAM \<Rightarrow> world \<Rightarrow> wndproc_result" where
  "law_wrapperClose code hwnd uMsg wParam lParam =
     wrapper code (\<lambda>ev. window_close (window ev)) FuncWinData hwnd uMsg wParam lParam"

definition law_wrapperResize ::
  "program \<Rightarrow> HWND \<Rightarrow> UINT \<Rightarrow> WPARAM \<Rightarrow> LPARAM \<Rightarrow> world \<Rightarrow> wndproc_result" where
  "law_wrapperResize code hwnd uMsg wParam lParam =
     wrapper code (\<lambda>ev. window_resize (window ev))
       (\<lambda>h d. FuncWinDataIntInt h d (ucast (LOWORD lParam)) (ucast (HIWORD lParam)))
       hwnd uMsg wParam lParam"

definition law_wrapperMove ::
  "program \<Rightarrow> HWND \<Rightarrow> UINT \<Rightarrow> WPARAM \<Rightarrow> LPARAM \<Rightarrow> world \<Rightarrow> wndproc_result" where
  "law_wrapperMove code hwnd uMsg wParam lParam =
     wrapper code (\<lambda>ev. window_move (window ev))
       (\<lambda>h d. FuncWinDataIntInt h d (ucast (LOWORD lParam)) (ucast (HIWORD lParam)))
       hwnd uMsg wParam lParam"

definition law_wrapperFocus ::
  "program \<Rightarrow> HWND \<Rightarrow> UINT \<Rightarrow> WPARAM \<Rightarrow> LPARAM \<Rightarrow> world \<Rightarrow> wndproc_result" where
  "law_wrapperFocus code hwnd uMsg wParam lParam =
     wrapper code (\<lambda>ev. window_focus (window ev)) FuncWinData hwnd uMsg wParam lParam"

definition law_wrapperUnfocus ::
  "program \<Rightarrow> HWND \<Rightarrow> UINT \<Rightarrow> WPARAM \<Rightarrow> LPARAM \<Rightarrow> world \<Rightarrow> wndproc_result" where
  "law_wrapperUnfocus code hwnd uMsg wParam lParam =
     wrapper code (\<lambda>ev. window_unfocus (window ev)) FuncWinData hwnd uMsg wParam lParam"

definition law_wrapperRedraw ::
  "program \<Rightarrow> HWND \<Rightarrow> UINT \<Rightarrow> WPARAM \<Rightarrow> LPARAM \<Rightarrow> world \<Rightarrow> wndproc_result" where
  "law_wrapperRedraw code hwnd uMsg wParam lParam =
     wrapper code (\<lambda>ev. window_redraw (window ev)) FuncWinData hwnd uMsg wParam lParam"

definition law_wrapperKeyDown ::
  "program \<Rightarrow> HWND \<Rightarrow> UINT \<Rightarrow> WPARAM \<Rightarrow> LPARAM \<Rightarrow> world \<Rightarrow> wndproc_result" where
  "law_wrapperKeyDown code hwnd uMsg wParam lParam =
     wrapper code (\<lambda>ev. key_down (key ev)) (\<lambda>h d. FuncWinDataInt h d (ucast wParam))
       hwnd uMsg wParam lParam"

definition law_wrapperKeyUp ::
  "program \<Rightarrow> HWND \<Rightarrow> UINT \<Rightarrow> WPARAM \<Rightarrow> LPARAM \<Rightarrow> world \<Rightarrow> wndproc_result" where
  "law_wrapperKeyUp code hwnd uMsg wParam lParam =
     wrapper code (\<lambda>ev. key_up (key ev)) (\<lambda>h d. FuncWinDataInt h d (ucast wParam))
       hwnd uMsg wParam lParam"

definition law_wrapperMouseMove ::
  "program \<Rightarrow> HWND \<Rightarrow> UINT \<Rightarrow> WPARAM \<Rightarrow> LPARAM \<Rightarrow> world \<Rightarrow> wndproc_result" where
  "law_wrapperMouseMove code hwnd uMsg wParam lParam =
     wrapper code (\<lambda>ev. mouse_move (mouse ev))
       (\<lambda>h d. FuncWinDataIntInt h d (ucast (LOWORD lParam)) (ucast (HIWORD lParam)))
       hwnd uMsg wParam lParam"

definition law_wrapperLButtonDown ::
  "program \<Rightarrow> HWND \<Rightarrow> UINT \<Rightarrow> WPARAM \<Rightarrow> LPARAM \<Rightarrow> world \<Rightarrow> wndproc_result" where
  "law_wrapperLButtonDown code hwnd uMsg wParam lParam =
     wrapper code (\<lambda>ev. mouse_down (mouse ev)) (\<lambda>h d. FuncWinDataInt h d LAW_MOUSE_LEFT)
       hwnd uMsg wParam lParam"

definition law_wrapperRButtonDown ::
  "program \<Rightarrow> HWND \<Rightarrow> UINT \<Rightarrow> WPARAM \<Rightarrow> LPARAM \<Rightarrow> world \<Rightarrow> wndproc_result" where
  "law_wrapperRButtonDown code hwnd uMsg wParam lParam =
     wrapper code (\<lambda>ev. mouse_down (mouse ev)) (\<lambda>h d. FuncWinDataInt h d LAW_MOUSE_RIGHT)
       hwnd uMsg wParam lParam"

definition law_wrapperMButtonDown ::
  "program \<Rightarrow> HWND \<Rightarrow> UINT \<Rightarrow> WPARAM \<Rightarrow> LPARAM \<Rightarrow> world \<Rightarrow> wndproc_result" where
  "law_wrapperMButtonDown code hwnd uMsg wParam lParam =
     wrapper code (\<lambda>ev. mouse_down (mouse ev)) (\<lambda>h d. FuncWinDataInt h d LAW_MOUSE_MIDDLE)
       hwnd uMsg wParam lParam"

definition law_wrapperXButtonDown ::
  "program \<Rightarrow> HWND \<Rightarrow> UINT \<Rightarrow> WPARAM \<Rightarrow> LPARAM \<Rightarrow> world \<Rightarrow> wndproc_result" where
  "law_wrapperXButtonDown code hwnd uMsg wParam lParam =
     wrapper code (\<lambda>ev. mouse_down (mouse ev))
       (\<lambda>h d. FuncWinDataInt h d
          (if GET_XBUTTON_WPARAM wParam = XBUTTON1 then LAW_MOUSE_X1 else LAW_MOUSE_X2))
       hwnd uMsg wParam lParam"

definition law_wrapperLButtonUp ::
  "program \<Rightarrow> HWND \<Rightarrow> UINT \<Rightarrow> WPARAM \<Rightarrow> LPARAM \<Rightarrow> world \<Rightarrow> wndproc_result" where
  "law_wrapperLButtonUp code hwnd uMsg wParam lParam =
     wrapper code (\<lambda>ev. mouse_up (mouse ev)) (\<lambda>h d. FuncWinDataInt h d LAW_MOUSE_LEFT)
       hwnd uMsg wParam lParam"

definition law_wrapperRButtonUp ::
  "program \<Rightarrow> HWND \<Rightarrow> UINT \<Rightarrow> WPARAM \<Rightarrow> LPARAM \<Rightarrow> world \<Rightarrow> wndproc_result" where
  "law_wrapperRButtonUp code hwnd uMsg wParam lParam =
     wrapper code (\<lambda>ev. mouse_up (mouse ev)) (\<lambda>h d. FuncWinDataInt h d LAW_MOUSE_RIGHT)
       hwnd uMsg wParam lParam"

definition law_wrapperMButtonUp ::
  "program \<Rightarrow> HWND \<Rightarrow> UINT \<Rightarrow> WPARAM \<Rightarrow> LPARAM \<Rightarrow> world \<Rightarrow> wndproc_result" where
  "law_wrapperMButtonUp code hwnd uMsg wParam lParam =
     wrapper code (\<lambda>ev. mouse_up (mouse ev)) (\<lambda>h d. FuncWinDataInt h d LAW_MOUSE_MIDDLE)
       hwnd uMsg wParam lParam"

definition law_wrapperXButtonUp ::
  "program \<Rightarrow> HWND \<Rightarrow> UINT \<Rightarrow> WPARAM \<Rightarrow> LPARAM \<Rightarrow> world \<Rightarrow> wndproc_result" where
  "law_wrapperXButtonUp code hwnd uMsg wParam lParam =
     wrapper code (\<lambda>ev. mouse_up (mouse ev))
       (\<lambda>h d. FuncWinDataInt h d
          (if GET_XBUTTON_WPARAM wParam = XBUTTON1 then LAW_MOUSE_X1 else LAW_MOUSE_X2))
       hwnd uMsg wParam lParam"

definition law_wrapperMouseWheel ::
  "program \<Rightarrow> HWND \<Rightarrow> UINT \<Rightarrow> WPARAM \<Rightarrow> LPARAM \<Rightarrow> world \<Rightarrow> wndproc_result" where
  "law_wrapperMouseWheel code hwnd uMsg wParam lParam =
     wrapper code (\<lambda>ev. mouse_wheel (mouse ev))
       (\<lambda>h d. FuncWinDataInt h d (GET_WHEEL_DELTA_WPARAM wParam))
       hwnd uMsg wParam lParam"

text \<open>\<^verbatim>\<open>UINT command = wParam & 0xFFF0\<close>: the mask is taken on the 64-bit parameter
  and the result is narrowed.\<close>

definition law_wrapperSysCommand ::
  "program \<Rightarrow> HWND \<Rightarrow> UINT \<Rightarrow> WPARAM \<Rightarrow> LPARAM \<Rightarrow> world \<Rightarrow> wndproc_result" where
  "law_wrapperSysCommand code hwnd uMsg wParam lParam w =
     (let command = (ucast (wParam AND 0xFFF0) :: UINT) in
      if command = SC_MINIMIZE then
        wrapper code (\<lambda>ev. window_minimize (window ev)) FuncWinData hwnd uMsg wParam lParam w
      else if command = SC_MAXIMIZE then
        wrapper code (\<lambda>ev. window_maximize (window ev)) FuncWinData hwnd uMsg wParam lParam w
      else Inr (DefWindowProcW hwnd uMsg wParam lParam w))"

definition law_wrapperShow ::
  "program \<Rightarrow> HWND \<Rightarrow> UINT \<Rightarrow> WPARAM \<Rightarrow> LPARAM \<Rightarrow> world \<Rightarrow> wndproc_result" where
  "law_wrapperShow code hwnd uMsg wParam lParam w =
     (if wParam \<noteq> 0 then
        wrapper code (\<lambda>ev. window_show (window ev)) FuncWinData hwnd uMsg wParam lParam w
      else
        wrapper code (\<lambda>ev. window_hide (window ev)) FuncWinData hwnd uMsg wParam lParam w)"

text \<open>The file-drop wrapper has no call yet: with the slot set it returns 0.\<close>

definition law_wrapperFileDrop ::
  "program \<Rightarrow> HWND \<Rightarrow> UINT \<Rightarrow> WPARAM \<Rightarrow> LPARAM \<Rightarrow> world \<Rightarrow> wndproc_result" where
  "law_wrapperFileDrop code hwnd uMsg wParam lParam w =
     (case EVENT hwnd w of
        Inl e \<Rightarrow> Inl e
      | Inr (win_data, events) \<Rightarrow>
          (case window_file_drop (window events) of
             None \<Rightarrow> Inr (DefWindowProcW hwnd uMsg wParam lParam w)
           | Some f \<Rightarrow> Inr (0, w)))"

subsection \<open>Touch and pen\<close>

text \<open>
  \<^verbatim>\<open>GetTouchInputInfo(handle, cInputs, buffer, size)\<close> of the backend: it fails on a
  handle it does not know; otherwise it stores the touch points of the handle, at most
  \<open>cInputs\<close> of them, from the start of the buffer.  The backend is told the count and
  not the length of the buffer: storing more entries than the buffer has is an overrun.
  The result is the part of the buffer that was written.
\<close>

definition GetTouchInputInfo ::
  "LPARAM \<Rightarrow> nat \<Rightarrow> nat \<Rightarrow> world \<Rightarrow> fault + TOUCHINPUT list option" where
  "GetTouchInputInfo hTouchInput cInputs buffer_length w =
     (case touch_input_info w hTouchInput of
        None \<Rightarrow> Inr None
      | Some pts \<Rightarrow>
          if buffer_length < length (take cInputs pts) then Inl BufferOverrun
          else Inr (Some (take cInputs pts)))"

text \<open>Division of \<^verbatim>\<open>int\<close> in C truncates towards zero.\<close>

definition c_div :: "cint \<Rightarrow> cint \<Rightarrow> cint" where
  "c_div a b = word_of_int (sint a sdiv sint b)"

definition CloseTouchInputHandle :: "LPARAM \<Rightarrow> world \<Rightarrow> world" where
  "CloseTouchInputHandle hTouchInput w =
     emit (TouchHandleClosed hTouchInput)
       (w\<lparr>touch_input_info := (touch_input_info w)(hTouchInput := None)\<rparr>)"

text \<open>
  The body of \<^verbatim>\<open>for (UINT i = 0; i < c_inputs; i++)\<close>, run over the values of \<open>i\<close>.
  \<^verbatim>\<open>touch_input\<close> has 10 elements, of which the backend wrote the first
  \<open>length touch_input\<close>.  The locals \<^verbatim>\<open>id\<close>, \<^verbatim>\<open>dx\<close> and \<^verbatim>\<open>dy\<close> are computed and
  not passed on.  The slot is read again in every round.
\<close>

fun touch_loop ::
  "program \<Rightarrow> HWND \<Rightarrow> TOUCHINPUT list \<Rightarrow> nat list \<Rightarrow> world \<Rightarrow> fault + world" where
  "touch_loop code hwnd touch_input [] w = Inr w"
| "touch_loop code hwnd touch_input (i # rest) w =
     (if 10 \<le> i then Inl BufferOverrun
      else if length touch_input \<le> i then Inl UninitialisedRead
      else
        (case EVENT hwnd w of
           Inl e \<Rightarrow> Inl e
         | Inr (win_data, events) \<Rightarrow>
             (case window_touch (window events) of
                None \<Rightarrow> Inl NullCall
              | Some f \<Rightarrow>
                  touch_loop code hwnd touch_input rest
                    (invoke code f
                       (FuncWinDataIntInt hwnd win_data
                          (c_div (touch_x (touch_input ! i)) 100)
                          (c_div (touch_y (touch_input ! i)) 100)) w))))"

definition law_wrapperTouch ::
  "program \<Rightarrow> HWND \<Rightarrow> UINT \<Rightarrow> WPARAM \<Rightarrow> LPARAM \<Rightarrow> world \<Rightarrow> wndproc_result" where
  "law_wrapperTouch code hwnd uMsg wParam lParam w =
     (case EVENT hwnd w of
        Inl e \<Rightarrow> Inl e
      | Inr (win_data, events) \<Rightarrow>
          (case window_touch (window events) of
             None \<Rightarrow> Inr (DefWindowProcW hwnd uMsg wParam lParam w)
           | Some f \<Rightarrow>
               (let c_inputs = (ucast (LOWORD wParam) :: UINT) in
                case GetTouchInputInfo lParam (unat c_inputs) 10 w of
                  Inl e \<Rightarrow> Inl e
                | Inr None \<Rightarrow> Inr (0, w)
                | Inr (Some touch_input) \<Rightarrow>
                    (case touch_loop code hwnd touch_input [0..<unat c_inputs] w of
                       Inl e \<Rightarrow> Inl e
                     | Inr w' \<Rightarrow> Inr (0, CloseTouchInputHandle lParam w')))))"

text \<open>\<^verbatim>\<open>GetPointerPenInfo\<close> succeeds for the pointers the backend has pen data for.\<close>

definition GetPointerPenInfo :: "UINT \<Rightarrow> world \<Rightarrow> POINTER_PEN_INFO option" where
  "GetPointerPenInfo pointer_id w = pointer_pen_info w pointer_id"

definition law_wrapperPointerUpdate ::
  "program \<Rightarrow> HWND \<Rightarrow> UINT \<Rightarrow> WPARAM \<Rightarrow> LPARAM \<Rightarrow> world \<Rightarrow> wndproc_result" where
  "law_wrapperPointerUpdate code hwnd uMsg wParam lParam w =
     (case EVENT hwnd w of
        Inl e \<Rightarrow> Inl e
      | Inr (win_data, events) \<Rightarrow>
          (case pen events of
             None \<Rightarrow> Inr (DefWindowProcW hwnd uMsg wParam lParam w)
           | Some f \<Rightarrow>
               (let pointer_id = GET_POINTERID_WPARAM wParam in
                case GetPointerPenInfo pointer_id w of
                  None \<Rightarrow> Inr (0, w)
                | Some pen_info \<Rightarrow>
                    Inr (0, invoke code f
                              (FuncWinDataUintIntIntInt hwnd win_data pointer_id
                                 (pressure pen_info) (tiltX pen_info) (tiltY pen_info)) w))))"

subsection \<open>The window procedure\<close>

definition law_proc ::
  "bool \<Rightarrow> program \<Rightarrow> HWND \<Rightarrow> UINT \<Rightarrow> WPARAM \<Rightarrow> LPARAM \<Rightarrow> world \<Rightarrow> wndproc_result" where
  "law_proc ndebug code hwnd uMsg wParam lParam w =
     (if uMsg = WM_MOUSEMOVE then law_wrapperMouseMove code hwnd uMsg wParam lParam w
      else if uMsg = WM_SIZE then law_wrapperResize code hwnd uMsg wParam lParam w
      else if uMsg = WM_MOVE then law_wrapperMove code hwnd uMsg wParam lParam w
      else if uMsg = WM_PAINT then law_wrapperRedraw code hwnd uMsg wParam lParam w
      else if uMsg = WM_KEYDOWN then law_wrapperKeyDown code hwnd uMsg wParam lParam w
      else if uMsg = WM_KEYUP then law_wrapperKeyUp code hwnd uMsg wParam lParam w
      else if uMsg = WM_LBUTTONDOWN then law_wrapperLButtonDown code hwnd uMsg wParam lParam w
      else if uMsg = WM_RBUTTONDOWN then law_wrapperRButtonDown code hwnd uMsg wParam lParam w
      else if uMsg = WM_MBUTTONDOWN then law_wrapperMButtonDown code hwnd uMsg wParam lParam w
      else if uMsg = WM_XBUTTONDOWN then law_wrapperXButtonDown code hwnd uMsg wParam lParam w
      else if uMsg = WM_LBUTTONUP then law_wrapperLButtonUp code hwnd uMsg wParam lParam w
      else if uMsg = WM_RBUTTONUP then law_wrapperRButtonUp code hwnd uMsg wParam lParam w
      else if uMsg = WM_MBUTTONUP then law_wrapperMButtonUp code hwnd uMsg wParam lParam w
      else if uMsg = WM_XBUTTONUP then law_wrapperXButtonUp code hwnd uMsg wParam lParam w
      else if uMsg = WM_MOUSEWHEEL then law_wrapperMouseWheel code hwnd uMsg wParam lParam w
      else if uMsg = WM_SYSCOMMAND then law_wrapperSysCommand code hwnd uMsg wParam lParam w
      else if uMsg = WM_SHOWWINDOW then law_wrapperShow code hwnd uMsg wParam lParam w
      else if uMsg = WM_TOUCH then law_wrapperTouch code hwnd uMsg wParam lParam w
      else if uMsg = WM_POINTERUPDATE then
        law_wrapperPointerUpdate code hwnd uMsg wParam lParam w
      else if uMsg = WM_SETFOCUS then law_wrapperFocus code hwnd uMsg wParam lParam w
      else if uMsg = WM_KILLFOCUS then law_wrapperUnfocus code hwnd uMsg wParam lParam w
      else if uMsg = WM_DROPFILES then law_wrapperFileDrop code hwnd uMsg wParam lParam w
      else if uMsg = WM_CLOSE then law_wrapperClose code hwnd uMsg wParam lParam w
      else if uMsg = WM_CREATE then law_wrapperCreate ndebug code hwnd uMsg wParam lParam w
      else if uMsg = WM_DESTROY then law_wrapperDestroy code hwnd uMsg wParam lParam w
      else Inr (DefWindowProcW hwnd uMsg wParam lParam w))"

section \<open>Windows\<close>

text \<open>
  \<^verbatim>\<open>CreateWindowExW\<close> of the backend, for the class of this header: on native failure
  it answers \<^verbatim>\<open>NULL\<close>; on native success there is a new window with an empty
  \<^verbatim>\<open>GWLP_USERDATA\<close>, the creation notification \<^verbatim>\<open>WM_CREATE\<close> runs in the window
  procedure before the call returns, and the handle is returned if the window is still
  there.  The window procedure of this header answers 0 to \<^verbatim>\<open>WM_CREATE\<close> in every
  case, so the answer \<open>-1\<close>, which makes the backend give up, needs no case.
\<close>

definition CreateWindowExW ::
  "bool \<Rightarrow> program \<Rightarrow> string option \<Rightarrow> cint \<Rightarrow> cint \<Rightarrow> HWND option \<Rightarrow> world \<Rightarrow>
   fault + HWND option \<times> world" where
  "CreateWindowExW ndebug code lpWindowName nWidth nHeight hWndParent w =
     (case create_results w of
        [] \<Rightarrow> Inr (None, emit (Created None) w)
      | None # rs \<Rightarrow> Inr (None, emit (Created None) (w\<lparr>create_results := rs\<rparr>))
      | Some h # rs \<Rightarrow>
          (case law_proc ndebug code h WM_CREATE 0 0
                  (emit (Created (Some h))
                     (w\<lparr>create_results := rs,
                        windows := (windows w)(h \<mapsto>
                          \<lparr>GWLP_USERDATA = None, window_text = lpWindowName\<rparr>)\<rparr>)) of
             Inl e \<Rightarrow> Inl e
           | Inr (r, w1) \<Rightarrow>
               if windows w1 h = None then Inr (None, w1) else Inr (Some h, w1)))"

text \<open>The part of \<^verbatim>\<open>law_create\<close> from the comment \<^verbatim>\<open>// Creating a window\<close> on.\<close>

definition law_create_native ::
  "bool \<Rightarrow> program \<Rightarrow> cint \<Rightarrow> cint \<Rightarrow> string option \<Rightarrow> HWND option \<Rightarrow> world \<Rightarrow>
   fault + HWND option \<times> world" where
  "law_create_native ndebug code width height title parent w =
     (case CreateWindowExW ndebug code title width height parent w of
        Inl e \<Rightarrow> Inl e
      | Inr (None, w1) \<Rightarrow>
          if \<not> ndebug then Inl AssertionFailed
          else Inr (None, w1\<lparr>law_error := LAW_ERROR_CREATE_WINDOW\<rparr>)
      | Inr (Some hwnd, w1) \<Rightarrow> Inr (Some hwnd, w1))"

definition law_create ::
  "bool \<Rightarrow> program \<Rightarrow> cint \<Rightarrow> cint \<Rightarrow> string option \<Rightarrow> HWND option \<Rightarrow> world \<Rightarrow>
   fault + HWND option \<times> world" where
  "law_create ndebug code width height title parent w =
     (if class_registered w = 0 then
        (case RegisterClassW w of
           (False, w1) \<Rightarrow>
             if \<not> ndebug then Inl AssertionFailed
             else Inr (None, w1\<lparr>law_error := LAW_ERROR_CREATE_WINDOW\<rparr>)
         | (True, w1) \<Rightarrow>
             law_create_native ndebug code width height title parent
               (w1\<lparr>class_registered := 1\<rparr>))
      else law_create_native ndebug code width height title parent w)"

definition law_destroy :: "program \<Rightarrow> HWND \<Rightarrow> world \<Rightarrow> fault + world" where
  "law_destroy code hwnd w = DestroyWindow code hwnd w"

definition law_getData :: "HWND \<Rightarrow> world \<Rightarrow> addr option" where
  "law_getData hwnd w = GetWindowLongPtrW hwnd w"

definition law_setTitle :: "HWND \<Rightarrow> string \<Rightarrow> world \<Rightarrow> world" where
  "law_setTitle hwnd title w =
     (case windows w hwnd of None \<Rightarrow> w
      | Some nw \<Rightarrow> w\<lparr>windows := (windows w)(hwnd \<mapsto> nw\<lparr>window_text := Some title\<rparr>)\<rparr>)"

definition law_maximize :: "HWND \<Rightarrow> world \<Rightarrow> world" where
  "law_maximize hwnd w = emit (Maximized hwnd) w"

definition law_setAppExit :: "fptr option \<Rightarrow> world \<Rightarrow> world" where
  "law_setAppExit function_pointer w = w\<lparr>law_exit_func := function_pointer\<rparr>"

definition law_getAppExit :: "world \<Rightarrow> fptr option" where
  "law_getAppExit w = law_exit_func w"

section \<open>The message pump\<close>

text \<open>\<^verbatim>\<open>PostQuitMessage\<close>: a quit notification with the exit code joins the pending
  messages.\<close>

definition law_exit :: "cint \<Rightarrow> world \<Rightarrow> world" where
  "law_exit exit_code w =
     w\<lparr>queue := queue w @
        [\<lparr>msg_hwnd = None, msg_message = WM_QUIT, msg_wParam = scast exit_code,
          msg_lParam = 0\<rparr>]\<rparr>"

text \<open>\<^verbatim>\<open>PeekMessageW(&msg, window, 0, 0, PM_REMOVE)\<close>: the first pending message of the
  window, or the first pending message at all for \<^verbatim>\<open>NULL\<close>, is taken out.\<close>

fun peek :: "HWND option \<Rightarrow> MSG list \<Rightarrow> (MSG \<times> MSG list) option" where
  "peek hWnd [] = None"
| "peek hWnd (m # ms) =
     (if hWnd = None \<or> msg_hwnd m = hWnd then Some (m, ms)
      else (case peek hWnd ms of None \<Rightarrow> None | Some (m', ms') \<Rightarrow> Some (m', m # ms')))"

definition PeekMessageW :: "HWND option \<Rightarrow> world \<Rightarrow> (MSG \<times> world) option" where
  "PeekMessageW hWnd w =
     (case peek hWnd (queue w) of None \<Rightarrow> None
      | Some (m, ms) \<Rightarrow> Some (m, w\<lparr>queue := ms\<rparr>))"

text \<open>\<^verbatim>\<open>DispatchMessageW\<close>: the window procedure of the message's window runs; a
  message without a window, or for a window that is gone, is dropped.  The character
  messages that \<^verbatim>\<open>TranslateMessage\<close> would post are left out: \<^verbatim>\<open>__law_proc\<close> gives
  them to default handling.\<close>

definition DispatchMessageW :: "bool \<Rightarrow> program \<Rightarrow> MSG \<Rightarrow> world \<Rightarrow> fault + world" where
  "DispatchMessageW ndebug code m w =
     (case msg_hwnd m of
        None \<Rightarrow> Inr w
      | Some h \<Rightarrow>
          if windows w h = None then Inr w
          else
            (case law_proc ndebug code h (msg_message m) (msg_wParam m) (msg_lParam m) w of
               Inl e \<Rightarrow> Inl e
             | Inr (r, w') \<Rightarrow> Inr w'))"

text \<open>The loop of \<^verbatim>\<open>law_update\<close> ends when no message is pending; a callback may post
  new ones, so the loop need not end: \<open>None\<close> is the run that never returns.\<close>

partial_function (option) law_update ::
  "bool \<Rightarrow> program \<Rightarrow> HWND option \<Rightarrow> world \<Rightarrow> (fault + world) option" where
  "law_update ndebug code hWnd w =
     (case PeekMessageW hWnd w of
        None \<Rightarrow> Some (Inr w)
      | Some (m, w1) \<Rightarrow>
          if msg_message m = WM_QUIT then
            (case law_exit_func w1 of
               None \<Rightarrow> Some (Inr w1)
             | Some f \<Rightarrow> Some (Inr (invoke code f (FuncInt (ucast (msg_wParam m))) w1)))
          else
            (case DispatchMessageW ndebug code m w1 of
               Inl e \<Rightarrow> Some (Inl e)
             | Inr w2 \<Rightarrow> law_update ndebug code hWnd w2))"

section \<open>The test program\<close>

text \<open>\<^verbatim>\<open>tests/test_window.c\<close>: the callbacks \<^verbatim>\<open>on_close\<close>, \<^verbatim>\<open>on_maximize\<close> and
  \<^verbatim>\<open>another_maximize\<close>, at three addresses.  A store through \<^verbatim>\<open>win_data\<close> changes the
  block it points to.\<close>

definition store :: "addr \<Rightarrow> (law_Data \<Rightarrow> law_Data) \<Rightarrow> world \<Rightarrow> world" where
  "store p upd w =
     (case heap w p of None \<Rightarrow> w | Some d \<Rightarrow> w\<lparr>heap := (heap w)(p \<mapsto> upd d)\<rparr>)"

text \<open>The assignments an application makes to the slots of the window data.\<close>

definition set_maximize :: "fptr option \<Rightarrow> law_Data \<Rightarrow> law_Data" where
  "set_maximize f d =
     d\<lparr>event := (event d)\<lparr>window := (window (event d))\<lparr>window_maximize := f\<rparr>\<rparr>\<rparr>"

definition set_close :: "fptr option \<Rightarrow> law_Data \<Rightarrow> law_Data" where
  "set_close f d =
     d\<lparr>event := (event d)\<lparr>window := (window (event d))\<lparr>window_close := f\<rparr>\<rparr>\<rparr>"

definition set_touch :: "fptr option \<Rightarrow> law_Data \<Rightarrow> law_Data" where
  "set_touch f d =
     d\<lparr>event := (event d)\<lparr>window := (window (event d))\<lparr>window_touch := f\<rparr>\<rparr>\<rparr>"

definition set_pen :: "fptr option \<Rightarrow> law_Data \<Rightarrow> law_Data" where
  "set_pen f d = d\<lparr>event := (event d)\<lparr>pen := f\<rparr>\<rparr>"

definition on_close :: fptr where "on_close = 1"
definition on_maximize :: fptr where "on_maximize = 2"
definition another_maximize :: fptr where "another_maximize = 3"

definition test_window :: program where
  "test_window f a w =
     (case a of
        FuncWinData hwnd win_data \<Rightarrow>
          if f = on_close then law_exit 0 (store win_data (\<lambda>d. d\<lparr>running := 0\<rparr>) w)
          else if f = on_maximize then
            store win_data (set_maximize (Some another_maximize))
              (law_setTitle hwnd ''Maximized Window'' (law_maximize hwnd w))
          else if f = another_maximize then
            store win_data (set_maximize (Some on_maximize))
              (law_setTitle hwnd ''Maximized(another) Window'' (law_maximize hwnd w))
          else w
      | _ \<Rightarrow> w)"

text \<open>A process at its start, with the answers of the backend still to be chosen.\<close>

definition start :: world where
  "start =
     \<lparr>law_error = 0, law_exit_func = None, class_registered = 0, heap = Map.empty,
      windows = Map.empty, queue = [], register_results = [], create_results = [],
      malloc_results = [], touch_input_info = Map.empty, pointer_pen_info = Map.empty,
      trace = []\<rparr>"

section \<open>Concrete processes\<close>

text \<open>The event table with every slot absent, and the window data that
  \<^verbatim>\<open>__law_wrapperCreate\<close> leaves behind.\<close>

definition absent :: law_Events where
  "absent =
     \<lparr>window = \<lparr>window_destroy = None, window_close = None, window_resize = None,
         window_move = None, window_focus = None, window_unfocus = None,
         window_redraw = None, window_minimize = None, window_maximize = None,
         window_show = None, window_hide = None, window_file_drop = None,
         window_touch = None\<rparr>,
      key = \<lparr>key_down = None, key_up = None\<rparr>,
      mouse = \<lparr>mouse_move = None, mouse_down = None, mouse_up = None, mouse_wheel = None\<rparr>,
      pen = None\<rparr>"

definition fresh_data :: law_Data where
  "fresh_data = \<lparr>event = absent, running = 1, user_data = None\<rparr>"

text \<open>What a block of \<^verbatim>\<open>malloc\<close> may hold before it is initialised.\<close>

definition junk :: law_Data where
  "junk =
     \<lparr>event =
        \<lparr>window = \<lparr>window_destroy = Some 9, window_close = Some 9, window_resize = Some 9,
           window_move = Some 9, window_focus = Some 9, window_unfocus = Some 9,
           window_redraw = Some 9, window_minimize = Some 9, window_maximize = Some 9,
           window_show = Some 9, window_hide = Some 9, window_file_drop = Some 9,
           window_touch = Some 9\<rparr>,
         key = \<lparr>key_down = Some 9, key_up = Some 9\<rparr>,
         mouse = \<lparr>mouse_move = Some 9, mouse_down = Some 9, mouse_up = Some 9,
           mouse_wheel = Some 9\<rparr>,
         pen = Some 9\<rparr>,
      running = 0xDEAD, user_data = Some 77\<rparr>"


definition no_memory :: world where
  "no_memory = start\<lparr>register_results := [True], create_results := [Some 7],
                     malloc_results := [None]\<rparr>"

text \<open>A process with the one window 7 of the test program, whose data is block 100.\<close>

definition one_window :: "law_Data \<Rightarrow> world" where
  "one_window d =
     start\<lparr>class_registered := 1, heap := [100 \<mapsto> d],
           windows := [7 \<mapsto> \<lparr>GWLP_USERDATA = Some 100, window_text = Some ''Window 1''\<rparr>],
           trace := [Registered True, Created (Some 7)]\<rparr>"

text \<open>The window with a touch callback at address 4, and eleven touch points behind
  the touch handle 55.\<close>

definition touch_window :: world where
  "touch_window =
     (one_window (set_touch (Some 4) fresh_data))
       \<lparr>touch_input_info :=
          [55 \<mapsto> replicate 11
             \<lparr>touch_x = 1234, touch_y = 5678, touch_dwID = 0, touch_dwMask = 0\<rparr>]\<rparr>"

text \<open>The window after \<^verbatim>\<open>main\<close> of the test program has assigned its callbacks.\<close>

definition main_window :: world where
  "main_window = one_window (set_maximize (Some on_maximize) (set_close (Some on_close) fresh_data))"

text \<open>The window with a pen callback at address 5; the backend has pen data for
  pointer 1 and for no other.\<close>

definition pen_window :: world where
  "pen_window = (one_window (set_pen (Some 5) fresh_data))
     \<lparr>pointer_pen_info := [1 \<mapsto> \<lparr>pressure = 512, tiltX = 10, tiltY = - 3\<rparr>]\<rparr>"

text \<open>Pending messages: a maximize command for window 7, a quit notification with
  exit code 3, and a close notification; the exit function is at address 6.  \<open>idle\<close> is
  an application whose callbacks do nothing.\<close>

definition maximize_msg :: MSG where
  "maximize_msg = \<lparr>msg_hwnd = Some 7, msg_message = WM_SYSCOMMAND, msg_wParam = 0xF030, msg_lParam = 0\<rparr>"

definition quit_msg :: MSG where
  "quit_msg = \<lparr>msg_hwnd = None, msg_message = WM_QUIT, msg_wParam = 3, msg_lParam = 0\<rparr>"

definition close_msg :: MSG where
  "close_msg = \<lparr>msg_hwnd = Some 7, msg_message = WM_CLOSE, msg_wParam = 0, msg_lParam = 0\<rparr>"

definition pending :: world where
  "pending = main_window\<lparr>law_exit_func := Some 6, queue := [maximize_msg, quit_msg, close_msg]\<rparr>"

definition idle :: program where
  "idle f a w = w"

section \<open>Sequences of creation calls\<close>

text \<open>The outcomes of the registration attempts a process has made, oldest first.\<close>

fun registration :: "effect \<Rightarrow> bool list" where
  "registration (Registered b) = [b]"
| "registration e = []"

definition registrations :: "world \<Rightarrow> bool list" where
  "registrations w = concat (map registration (trace w))"

text \<open>A sequence of calls of \<^verbatim>\<open>law_create\<close>, each with its arguments; the run ends at
  the first fault.\<close>

fun law_create_all ::
  "bool \<Rightarrow> program \<Rightarrow> (cint \<times> cint \<times> string option \<times> HWND option) list \<Rightarrow> world \<Rightarrow>
   fault + HWND option list \<times> world" where
  "law_create_all ndebug code [] w = Inr ([], w)"
| "law_create_all ndebug code ((width, height, title, parent) # calls) w =
     (case law_create ndebug code width height title parent w of
        Inl e \<Rightarrow> Inl e
      | Inr (r, w1) \<Rightarrow>
          (case law_create_all ndebug code calls w1 of
             Inl e \<Rightarrow> Inl e
           | Inr (rs, w2) \<Rightarrow> Inr (r # rs, w2)))"

text \<open>A process in which the backend will refuse the first registration and accept the
  second; and two calls with the arguments of the test program.\<close>

definition retry :: world where
  "retry = start\<lparr>register_results := [False, True], create_results := [Some 7],
                malloc_results := [Some (100, junk)]\<rparr>"

definition two_calls :: "(cint \<times> cint \<times> string option \<times> HWND option) list" where
  "two_calls = [(400, 100, Some ''Window 1'', None), (400, 100, Some ''Window 1'', None)]"

section \<open>The dispatch in the words of the specification\<close>

text \<open>
  The notification kinds that the dispatcher answers with one lookup and one call
  (specification, 4.3): the slot a notification of the kind reads, and the normalized
  parameters of the call.  Mouse buttons are left 1, right 2, middle 3, extra 4 and 5;
  resize, move and mouse move deliver the low and the high part of the coordinate
  payload; wheel a signed delta; minimize and maximize come from the system command
  masked to its subtype; show and hide from the visibility notification.
\<close>

definition single_call_slot :: "UINT \<Rightarrow> WPARAM \<Rightarrow> (law_Events \<Rightarrow> fptr option) option" where
  "single_call_slot uMsg wParam =
     (if uMsg = WM_CLOSE then Some (\<lambda>ev. window_close (window ev))
      else if uMsg = WM_SIZE then Some (\<lambda>ev. window_resize (window ev))
      else if uMsg = WM_MOVE then Some (\<lambda>ev. window_move (window ev))
      else if uMsg = WM_SETFOCUS then Some (\<lambda>ev. window_focus (window ev))
      else if uMsg = WM_KILLFOCUS then Some (\<lambda>ev. window_unfocus (window ev))
      else if uMsg = WM_PAINT then Some (\<lambda>ev. window_redraw (window ev))
      else if uMsg = WM_SYSCOMMAND then
        (if (ucast (wParam AND 0xFFF0) :: UINT) = SC_MINIMIZE
           then Some (\<lambda>ev. window_minimize (window ev))
         else if (ucast (wParam AND 0xFFF0) :: UINT) = SC_MAXIMIZE
           then Some (\<lambda>ev. window_maximize (window ev))
         else None)
      else if uMsg = WM_SHOWWINDOW then
        (if wParam \<noteq> 0 then Some (\<lambda>ev. window_show (window ev))
         else Some (\<lambda>ev. window_hide (window ev)))
      else if uMsg = WM_KEYDOWN then Some (\<lambda>ev. key_down (key ev))
      else if uMsg = WM_KEYUP then Some (\<lambda>ev. key_up (key ev))
      else if uMsg = WM_MOUSEMOVE then Some (\<lambda>ev. mouse_move (mouse ev))
      else if uMsg \<in> {WM_LBUTTONDOWN, WM_RBUTTONDOWN, WM_MBUTTONDOWN, WM_XBUTTONDOWN}
        then Some (\<lambda>ev. mouse_down (mouse ev))
      else if uMsg \<in> {WM_LBUTTONUP, WM_RBUTTONUP, WM_MBUTTONUP, WM_XBUTTONUP}
        then Some (\<lambda>ev. mouse_up (mouse ev))
      else if uMsg = WM_MOUSEWHEEL then Some (\<lambda>ev. mouse_wheel (mouse ev))
      else None)"

definition single_call_args :: "UINT \<Rightarrow> WPARAM \<Rightarrow> LPARAM \<Rightarrow> HWND \<Rightarrow> addr \<Rightarrow> cb_args" where
  "single_call_args uMsg wParam lParam hwnd win_data =
     (if uMsg \<in> {WM_SIZE, WM_MOVE, WM_MOUSEMOVE} then
        FuncWinDataIntInt hwnd win_data (ucast (LOWORD lParam)) (ucast (HIWORD lParam))
      else if uMsg \<in> {WM_KEYDOWN, WM_KEYUP} then FuncWinDataInt hwnd win_data (ucast wParam)
      else if uMsg \<in> {WM_LBUTTONDOWN, WM_LBUTTONUP} then FuncWinDataInt hwnd win_data 1
      else if uMsg \<in> {WM_RBUTTONDOWN, WM_RBUTTONUP} then FuncWinDataInt hwnd win_data 2
      else if uMsg \<in> {WM_MBUTTONDOWN, WM_MBUTTONUP} then FuncWinDataInt hwnd win_data 3
      else if uMsg \<in> {WM_XBUTTONDOWN, WM_XBUTTONUP} then
        FuncWinDataInt hwnd win_data (if HIWORD wParam = 1 then 4 else 5)
      else if uMsg = WM_MOUSEWHEEL then FuncWinDataInt hwnd win_data (scast (HIWORD wParam))
      else FuncWinData hwnd win_data)"

section \<open>The window data as creation left it\<close>

text \<open>
  Window \<open>h\<close> has its data in block \<open>p\<close>, the block reads as
  \<^verbatim>\<open>__law_wrapperCreate\<close> left it, and no creation notification is pending (the
  backend raises it inside \<^verbatim>\<open>CreateWindowExW\<close> and never posts it).
\<close>

definition undisturbed :: "HWND \<Rightarrow> addr \<Rightarrow> world \<Rightarrow> bool" where
  "undisturbed h p v \<longleftrightarrow>
     law_getData h v = Some p \<and> heap v p = Some fresh_data
     \<and> (\<forall>m\<in>set (queue v). msg_message m \<noteq> WM_CREATE)"



text \<open>An application whose touch callback at address 4 installs the callback at address
  8 in its own slot, and the window with two touch points behind the touch handle 55.\<close>

definition touch_swap :: program where
  "touch_swap f a w =
     (case a of
        FuncWinDataIntInt hwnd win_data px py \<Rightarrow>
          if f = 4 then store win_data (set_touch (Some 8)) w else w
      | _ \<Rightarrow> w)"

definition two_touches :: world where
  "two_touches =
     (one_window (set_touch (Some 4) fresh_data))
       \<lparr>touch_input_info :=
          [55 \<mapsto> [\<lparr>touch_x = 1234, touch_y = 5678, touch_dwID = 0, touch_dwMask = 0\<rparr>,
                  \<lparr>touch_x = 3456, touch_y = 7890, touch_dwID = 1, touch_dwMask = 0\<rparr>]]\<rparr>"

section \<open>Properties\<close>

subsection \<open>Error messages\<close>

text \<open>
  C3 (the code departs from the claim).  The claim: for each of the four defined codes
  \<^verbatim>\<open>law_getErrorMsg\<close> returns the message designated for it.  The offsets 13, 38 and
  87 count two terminators for each message, as in the table of separate strings; in
  the joined literal each message has one.  For \<^verbatim>\<open>LAW_ERROR_CREATE_WINDOW\<close> the
  returned pointer is one byte into its message, whatever the build.
\<close>

theorem law_getErrorMsg_offsets_shifted:
  "law_getErrorMsg True LAW_ERROR_CREATE_WINDOW = Inr ''ailed to create window''
   \<and> law_getErrorMsg False LAW_ERROR_CREATE_WINDOW = Inr ''ailed to create window''
   \<and> designated_msg LAW_ERROR_CREATE_WINDOW = ''Failed to create window''"
  by (simp add: law_getErrorMsg_def designated_msg_def LAW_ERROR_CREATE_WINDOW_def
      indices_def not_used_def c_str_def error_arena_def NUL_def)

text \<open>
  C9.  The assertion of \<^verbatim>\<open>law_getErrorMsg\<close> asks for a code below 3.  In a build with
  assertions the call aborts exactly for the codes from 3 on, among them
  \<^verbatim>\<open>LAW_ERROR_REGISTER_WINDOW_CLASS\<close>; in a build without them every call returns a
  message, and the codes above 3 get the text for unknown errors.
\<close>

theorem law_getErrorMsg_assertion:
  "(law_getErrorMsg False error_code = Inl AssertionFailed \<longleftrightarrow> 3 \<le> error_code)
 \<and> (\<exists>msg. law_getErrorMsg True error_code = Inr msg)
 \<and> (3 < error_code \<longrightarrow> law_getErrorMsg True error_code = Inr ''Unknown error'')"
  by (auto simp: law_getErrorMsg_def indices_def not_le word_less_nat_alt word_le_nat_alt)

text \<open>Witness of C9: the codes 3 and 4.\<close>

theorem law_getErrorMsg_assertion_witness:
  "law_getErrorMsg False LAW_ERROR_REGISTER_WINDOW_CLASS = Inl AssertionFailed
 \<and> law_getErrorMsg False 4 = Inl AssertionFailed
 \<and> law_getErrorMsg True 4 = Inr ''Unknown error''
 \<and> (\<exists>msg. law_getErrorMsg True LAW_ERROR_REGISTER_WINDOW_CLASS = Inr msg)"
  using law_getErrorMsg_assertion [of LAW_ERROR_REGISTER_WINDOW_CLASS] law_getErrorMsg_assertion [of 4]
  by (simp add: LAW_ERROR_REGISTER_WINDOW_CLASS_def)

subsection \<open>Reading the window data\<close>

lemma law_initEvents_absent: "law_initEvents ev = absent"
  by (simp add: law_initEvents_def absent_def)

lemmas WM_defs = WM_CREATE_def WM_DESTROY_def WM_MOUSEMOVE_def
  WM_SIZE_def WM_MOVE_def WM_PAINT_def WM_KEYDOWN_def WM_KEYUP_def WM_LBUTTONDOWN_def
  WM_RBUTTONDOWN_def WM_MBUTTONDOWN_def WM_XBUTTONDOWN_def WM_LBUTTONUP_def WM_RBUTTONUP_def
  WM_MBUTTONUP_def WM_XBUTTONUP_def WM_MOUSEWHEEL_def WM_SYSCOMMAND_def WM_SHOWWINDOW_def
  WM_TOUCH_def WM_POINTERUPDATE_def WM_SETFOCUS_def WM_KILLFOCUS_def WM_DROPFILES_def
  WM_CLOSE_def WM_QUIT_def

lemmas simple_wrappers =
  law_wrapperClose_def law_wrapperResize_def law_wrapperMove_def law_wrapperFocus_def
  law_wrapperUnfocus_def law_wrapperRedraw_def law_wrapperKeyDown_def law_wrapperKeyUp_def
  law_wrapperMouseMove_def law_wrapperLButtonDown_def law_wrapperRButtonDown_def
  law_wrapperMButtonDown_def law_wrapperXButtonDown_def law_wrapperLButtonUp_def
  law_wrapperRButtonUp_def law_wrapperMButtonUp_def law_wrapperXButtonUp_def
  law_wrapperMouseWheel_def

lemma law_proc_WM_CREATE:
  "law_proc ndebug code h WM_CREATE wp lp w = law_wrapperCreate ndebug code h WM_CREATE wp lp w"
  by (simp add: law_proc_def WM_defs)

lemma law_proc_WM_DESTROY:
  "law_proc ndebug code h WM_DESTROY wp lp w = law_wrapperDestroy code h WM_DESTROY wp lp w"
  by (simp add: law_proc_def WM_defs)

lemma law_proc_WM_SYSCOMMAND:
  "law_proc ndebug code h WM_SYSCOMMAND wp lp w = law_wrapperSysCommand code h WM_SYSCOMMAND wp lp w"
  by (simp add: law_proc_def WM_defs)

lemma law_proc_WM_TOUCH:
  "law_proc ndebug code h WM_TOUCH wp lp w = law_wrapperTouch code h WM_TOUCH wp lp w"
  by (simp add: law_proc_def WM_defs)

lemma law_proc_WM_POINTERUPDATE:
  "law_proc ndebug code h WM_POINTERUPDATE wp lp w = law_wrapperPointerUpdate code h WM_POINTERUPDATE wp lp w"
  by (simp add: law_proc_def WM_defs)

lemma EVENT_null:
  "GetWindowLongPtrW h w = None \<Longrightarrow> EVENT h w = Inl NullDereference"
  by (simp add: EVENT_def)

lemma EVENT_Some:
  "GetWindowLongPtrW h w = Some p \<Longrightarrow> heap w p = Some d \<Longrightarrow> EVENT h w = Inr (p, event d)"
  by (simp add: EVENT_def)

lemma GetWindowLongPtrW_emit [simp]: "GetWindowLongPtrW h (emit e w) = GetWindowLongPtrW h w"
  by (simp add: GetWindowLongPtrW_def emit_def)

lemma heap_emit [simp]: "heap (emit e w) = heap w"
  by (simp add: emit_def)

lemma queue_emit [simp]: "queue (emit e w) = queue w"
  by (simp add: emit_def)

lemma wrapper_absent:
  assumes "GetWindowLongPtrW h w = Some p" "heap w p = Some d" "slot (event d) = None"
  shows "wrapper code slot args h uMsg wp lp w = Inr (DefWindowProcW h uMsg wp lp w)"
  using assms by (simp add: wrapper_def EVENT_Some)

lemma wrapper_callback:
  assumes "GetWindowLongPtrW h w = Some p" "heap w p = Some d" "slot (event d) = Some f"
  shows "wrapper code slot args h uMsg wp lp w = Inr (0, invoke code f (args h p) w)"
  using assms by (simp add: wrapper_def EVENT_Some)

lemma one_window_slot [simp]:
  "GetWindowLongPtrW 7 (one_window d) = Some 100" "heap (one_window d) 100 = Some d"
  "windows (one_window d) 7 = Some \<lparr>GWLP_USERDATA = Some 100, window_text = Some ''Window 1''\<rparr>"
  by (simp_all add: one_window_def GetWindowLongPtrW_def start_def)

subsection \<open>Creation\<close>

text \<open>A window whose slot is still empty cannot be destroyed through this window
  procedure: the destruction wrapper reads the event table through the null pointer.\<close>

lemma DestroyWindow_null:
  assumes "windows w h = Some nw" "GWLP_USERDATA nw = None"
  shows "DestroyWindow code h w = Inl NullDereference"
  using assms
  by (simp add: DestroyWindow_def law_wrapperDestroy_def Let_def EVENT_def GetWindowLongPtrW_def emit_def)

text \<open>The creation wrapper on a new window, in closed form.\<close>

lemma law_wrapperCreate_fresh:
  assumes "windows w h = Some nw" "GWLP_USERDATA nw = None"
  shows "law_wrapperCreate ndebug code h uMsg wp lp w =
    (case malloc_results w of
       Some (p, g) # rs \<Rightarrow>
         Inr (0, w\<lparr>malloc_results := rs,
                   heap := (heap w)(p \<mapsto> \<lparr>event = absent, running = 1, user_data = None\<rparr>),
                   windows := (windows w)(h \<mapsto> nw\<lparr>GWLP_USERDATA := Some p\<rparr>)\<rparr>)
     | _ \<Rightarrow> if ndebug then Inl NullDereference else Inl AssertionFailed)"
proof (cases "malloc_results w")
  case Nil
  then have "malloc w = (None, w)" by (simp add: malloc_def)
  then show ?thesis using Nil DestroyWindow_null [OF assms]
    by (simp add: law_wrapperCreate_def)
next
  case (Cons r rs)
  show ?thesis
  proof (cases r)
    case None
    then have m: "malloc w = (None, w\<lparr>malloc_results := rs\<rparr>)" using Cons by (simp add: malloc_def)
    have "DestroyWindow code h (w\<lparr>malloc_results := rs\<rparr>) = Inl NullDereference"
      by (rule DestroyWindow_null [where nw = nw]) (simp_all add: assms)
    then show ?thesis using m Cons None by (simp add: law_wrapperCreate_def)
  next
    case (Some pg)
    obtain p g where pg: "pg = (p, g)" by (cases pg)
    have m: "malloc w = (Some (p, g), w\<lparr>malloc_results := rs\<rparr>)"
      using Cons Some pg by (simp add: malloc_def)
    have d: "g\<lparr>event := absent, running := 1, user_data := None\<rparr> = \<lparr>event = absent, running = 1, user_data = None\<rparr>"
      by (cases g) simp
    show ?thesis using m Cons Some pg assms
      by (simp add: law_wrapperCreate_def SetWindowLongPtrW_def law_initEvents_absent d)
  qed
qed

lemma CreateWindowExW_eq:
  "CreateWindowExW ndebug code t wd ht par w =
     (case create_results w of
        [] \<Rightarrow> Inr (None, emit (Created None) w)
      | None # rs \<Rightarrow> Inr (None, emit (Created None) (w\<lparr>create_results := rs\<rparr>))
      | Some h # rs \<Rightarrow>
          (case malloc_results w of
             Some (p, g) # ms \<Rightarrow>
               Inr (Some h,
                 w\<lparr>create_results := rs, malloc_results := ms,
                   trace := trace w @ [Created (Some h)],
                   heap := (heap w)(p \<mapsto> \<lparr>event = absent, running = 1, user_data = None\<rparr>),
                   windows := (windows w)(h \<mapsto>
                      \<lparr>GWLP_USERDATA = Some p, window_text = t\<rparr>)\<rparr>)
           | _ \<Rightarrow> if ndebug then Inl NullDereference else Inl AssertionFailed))"
proof (cases "create_results w")
  case Nil
  then show ?thesis by (simp add: CreateWindowExW_def)
next
  case (Cons c rs)
  show ?thesis
  proof (cases c)
    case None
    then show ?thesis using Cons by (simp add: CreateWindowExW_def)
  next
    case (Some h)
    let ?w0 = "emit (Created (Some h))
                 (w\<lparr>create_results := rs,
                    windows := (windows w)(h \<mapsto> \<lparr>GWLP_USERDATA = None, window_text = t\<rparr>)\<rparr>)"
    have win: "windows ?w0 h = Some \<lparr>GWLP_USERDATA = None, window_text = t\<rparr>"
      by (simp add: emit_def)
    have mr: "malloc_results ?w0 = malloc_results w"
      by (simp add: emit_def)
    have step: "law_proc ndebug code h WM_CREATE 0 0 ?w0 =
      (case malloc_results w of
         Some (p, g) # ms \<Rightarrow>
           Inr (0, ?w0\<lparr>malloc_results := ms,
                   heap := (heap ?w0)(p \<mapsto> \<lparr>event = absent, running = 1, user_data = None\<rparr>),
                   windows := (windows ?w0)(h \<mapsto> \<lparr>GWLP_USERDATA = Some p, window_text = t\<rparr>)\<rparr>)
       | _ \<Rightarrow> if ndebug then Inl NullDereference else Inl AssertionFailed)"
      unfolding law_proc_WM_CREATE
      by (subst law_wrapperCreate_fresh [OF win]) (simp_all add: emit_def split: list.splits option.splits)
    show ?thesis
      unfolding CreateWindowExW_def using Cons Some
      apply (simp only: list.case option.case step)
      apply (simp add: emit_def split: list.splits option.splits prod.splits)
      done
  qed
qed

lemma law_create_native_eq:
  "law_create_native ndebug code wd ht t par w =
     (case create_results w of
        Some h # rs \<Rightarrow>
          (case malloc_results w of
             Some (p, g) # ms \<Rightarrow>
               Inr (Some h,
                 w\<lparr>create_results := rs, malloc_results := ms,
                   trace := trace w @ [Created (Some h)],
                   heap := (heap w)(p \<mapsto> \<lparr>event = absent, running = 1, user_data = None\<rparr>),
                   windows := (windows w)(h \<mapsto>
                      \<lparr>GWLP_USERDATA = Some p, window_text = t\<rparr>)\<rparr>)
           | _ \<Rightarrow> if ndebug then Inl NullDereference else Inl AssertionFailed)
      | _ \<Rightarrow>
          if ndebug then
            Inr (None, w\<lparr>create_results := tl (create_results w),
                        trace := trace w @ [Created None],
                        law_error := LAW_ERROR_CREATE_WINDOW\<rparr>)
          else Inl AssertionFailed)"
  unfolding law_create_native_def CreateWindowExW_eq
  by (simp add: emit_def split: list.splits option.splits prod.splits)



text \<open>
  C4 (the code departs from the claim).  The claim: when the allocation of the window
  data fails, \<^verbatim>\<open>law_create\<close> returns null with \<^verbatim>\<open>law_error\<close> set to
  \<^verbatim>\<open>LAW_ERROR_ALLOCATE_MEMORY_FOR_PARAMS\<close>, after asking for the destruction of the
  window.  In the code the creation wrapper calls \<^verbatim>\<open>DestroyWindow\<close> before it assigns
  \<^verbatim>\<open>law_error\<close>; the destruction notification runs \<^verbatim>\<open>__law_wrapperDestroy\<close> on a
  window whose slot is still empty, which reads through a null pointer.  With
  assertions the process aborts at \<^verbatim>\<open>assert(0)\<close>.  In neither build does the call
  return.
\<close>

theorem law_create_allocation_failure:
  "law_create True test_window 400 100 (Some ''Window 1'') None no_memory = Inl NullDereference
 \<and> law_create False test_window 400 100 (Some ''Window 1'') None no_memory = Inl AssertionFailed"
  by (simp add: law_create_def law_create_native_eq RegisterClassW_def no_memory_def start_def emit_def)

subsection \<open>Registration of the window class\<close>

lemma law_create_native_registrations:
  assumes "law_create_native ndebug code wd ht t par w = Inr (r, w')"
  shows "registrations w' = registrations w \<and> class_registered w' = class_registered w
         \<and> register_results w' = register_results w"
  using assms unfolding law_create_native_eq
  by (auto simp: registrations_def split: list.splits option.splits prod.splits if_splits)

lemma law_create_registered:
  assumes "class_registered w \<noteq> 0" "law_create ndebug code wd ht t par w = Inr (r, w')"
  shows "registrations w' = registrations w \<and> class_registered w' = class_registered w
         \<and> register_results w' = register_results w"
  using assms law_create_native_registrations by (simp add: law_create_def)

lemma law_create_unregistered:
  assumes "class_registered w = 0" "law_create ndebug code wd ht t par w = Inr (r, w')"
  shows "(class_registered w' = 0 \<and> registrations w' = registrations w @ [False] \<and> r = None
            \<and> register_results w' = tl (register_results w))
       \<or> (class_registered w' = 1 \<and> registrations w' = registrations w @ [True])"
proof (cases "register_results w")
  case Nil
  then show ?thesis using assms
    by (auto simp: law_create_def RegisterClassW_def emit_def registrations_def split: if_splits)
next
  case (Cons b bs)
  show ?thesis
  proof (cases b)
    case False
    then show ?thesis using assms Cons
      by (auto simp: law_create_def RegisterClassW_def emit_def registrations_def
               split: if_splits)
  next
    case True
    then have "law_create_native ndebug code wd ht t par
        (emit (Registered True) (w\<lparr>register_results := bs\<rparr>)\<lparr>class_registered := 1\<rparr>)
        = Inr (r, w')"
      using assms Cons by (simp add: law_create_def RegisterClassW_def)
    from law_create_native_registrations [OF this] show ?thesis
      by (simp add: registrations_def emit_def)
  qed
qed

lemma law_create_registration_fails:
  assumes "class_registered w = 0" "\<forall>b\<in>set (register_results w). \<not> b"
  shows "\<exists>w'. law_create True code wd ht t par w = Inr (None, w') \<and> class_registered w' = 0
           \<and> registrations w' = registrations w @ [False]
           \<and> register_results w' = tl (register_results w)"
  using assms
  by (cases "register_results w")
     (auto simp: law_create_def RegisterClassW_def emit_def registrations_def)

lemma law_create_all_registered:
  assumes "class_registered w \<noteq> 0" "law_create_all ndebug code calls w = Inr (rs, w')"
  shows "registrations w' = registrations w \<and> class_registered w' = class_registered w"
  using assms
proof (induction calls arbitrary: w rs)
  case Nil
  then show ?case by simp
next
  case (Cons c calls)
  obtain wd ht t par where c: "c = (wd, ht, t, par)" by (cases c)
  from Cons.prems(2) c obtain r w1 rs1 where
    1: "law_create ndebug code wd ht t par w = Inr (r, w1)" and
    2: "law_create_all ndebug code calls w1 = Inr (rs1, w')"
    by (auto split: sum.splits)
  from law_create_registered [OF Cons.prems(1) 1] Cons.IH [OF _ 2] Cons.prems(1)
  show ?case by simp
qed

lemma law_create_all_length:
  "law_create_all ndebug code calls w = Inr (rs, w') \<Longrightarrow> length rs = length calls"
  by (induction calls arbitrary: w rs) (auto split: sum.splits)

lemma law_create_all_unregistered:
  assumes "class_registered w = 0" "law_create_all ndebug code calls w = Inr (rs, w')"
  shows "\<exists>k\<le>length calls.
           registrations w' =
             registrations w @ replicate k False @ (if class_registered w' = 0 then [] else [True])
         \<and> take k rs = replicate k None
         \<and> (class_registered w' = 0 \<longrightarrow> k = length calls)"
  using assms
proof (induction calls arbitrary: w rs)
  case Nil
  then show ?case by simp
next
  case (Cons c calls)
  obtain wd ht t par where c: "c = (wd, ht, t, par)" by (cases c)
  from Cons.prems(2) c obtain r w1 rs1 where
    1: "law_create ndebug code wd ht t par w = Inr (r, w1)" and
    2: "law_create_all ndebug code calls w1 = Inr (rs1, w')" and
    rs: "rs = r # rs1"
    by (auto split: sum.splits)
  from law_create_unregistered [OF Cons.prems(1) 1]
  consider (failed) "class_registered w1 = 0" "registrations w1 = registrations w @ [False]"
      "r = None"
    | (ok) "class_registered w1 = 1" "registrations w1 = registrations w @ [True]"
    by blast
  then show ?case
  proof cases
    case failed
    from Cons.IH [OF failed(1) 2] obtain k where
      k: "k \<le> length calls"
        "registrations w' = registrations w1 @ replicate k False @
           (if class_registered w' = 0 then [] else [True])"
        "take k rs1 = replicate k None"
        "class_registered w' = 0 \<longrightarrow> k = length calls"
      by blast
    show ?thesis
      by (rule exI [of _ "Suc k"])
         (use k failed rs in \<open>simp add: replicate_app_Cons_same\<close>)
  next
    case ok
    then have "class_registered w1 \<noteq> 0" by simp
    from law_create_all_registered [OF this 2] ok
    show ?thesis by (intro exI [of _ 0]) simp
  qed
qed

lemma law_create_all_fails:
  assumes "class_registered w = 0" "\<forall>b\<in>set (register_results w). \<not> b"
  shows "\<exists>w'. law_create_all True code calls w = Inr (replicate (length calls) None, w')
           \<and> registrations w' = registrations w @ replicate (length calls) False"
  using assms
proof (induction calls arbitrary: w)
  case Nil
  then show ?case by simp
next
  case (Cons c calls)
  obtain wd ht t par where c: "c = (wd, ht, t, par)" by (cases c)
  from law_create_registration_fails [OF Cons.prems, of code wd ht t par] obtain w1 where
    1: "law_create True code wd ht t par w = Inr (None, w1)" and
    2: "class_registered w1 = 0" and
    3: "registrations w1 = registrations w @ [False]" and
    4: "register_results w1 = tl (register_results w)"
    by (elim exE conjE)
  have 5: "\<forall>b\<in>set (register_results w1). \<not> b"
  proof
    fix b
    assume "b \<in> set (register_results w1)"
    then have "b \<in> set (tl (register_results w))" by (simp only: 4)
    then have "b \<in> set (register_results w)" by (metis list.sel(2) list.set_sel(2))
    with Cons.prems(2) show "\<not> b" by (rule_tac bspec)
  qed
  from Cons.IH [OF 2 5] obtain w' where
    6: "law_create_all True code calls w1 = Inr (replicate (length calls) None, w')" and
    7: "registrations w' = registrations w1 @ replicate (length calls) False"
    by (elim exE conjE)
  have "law_create_all True code (c # calls) w = Inr (replicate (length (c # calls)) None, w')"
    by (simp add: c 1 6)
  moreover have "registrations w' = registrations w @ replicate (length (c # calls)) False"
    by (simp add: 7 3)
  ultimately show ?case by (intro exI conjI)
qed

lemma retry_run:
  "law_create_all True test_window two_calls retry =
     Inr ([None, Some 7],
          (one_window fresh_data)\<lparr>law_error := LAW_ERROR_CREATE_WINDOW,
             trace := [Registered False, Registered True, Created (Some 7)]\<rparr>)"
  by (simp add: two_calls_def law_create_def law_create_native_eq RegisterClassW_def retry_def
      start_def emit_def one_window_def fresh_data_def junk_def)

text \<open>
  C1 (counterexample to the claim as stated).  The claim: registration is attempted at
  most once, and after a failed first attempt every creation call returns null without
  a new attempt.  Here the first attempt fails and the second call registers the class
  and returns window 7.
\<close>

theorem law_create_retries_registration:
  "map_sum id fst (law_create_all True test_window two_calls retry) = Inr [None, Some 7]
 \<and> map_sum id (\<lambda>r. registrations (snd r)) (law_create_all True test_window two_calls retry)
     = Inr [False, True]"
  by (simp add: retry_run registrations_def)

text \<open>
  C1 (as amended).  In any sequence of creation calls that returns, the registration
  attempts made are a run of failures followed by at most one success: every call made
  while the class is unregistered attempts registration, the calls whose attempt failed
  returned null and left the class unregistered, and no call made once the class is
  registered attempts it again.  In a build without assertions, if the backend refuses
  every attempt then every call returns null, each after one attempt.
\<close>

theorem law_create_all_registration:
  "(\<forall>rs w'. class_registered w = 0 \<and> law_create_all ndebug code calls w = Inr (rs, w') \<longrightarrow>
      (\<exists>k\<le>length calls.
          registrations w' =
            registrations w @ replicate k False @
              (if class_registered w' = 0 then [] else [True])
        \<and> take k rs = replicate k None
        \<and> (class_registered w' = 0 \<longrightarrow> k = length calls)))
 \<and> (\<forall>rs w'. class_registered w \<noteq> 0 \<and> law_create_all ndebug code calls w = Inr (rs, w') \<longrightarrow>
      registrations w' = registrations w)
 \<and> (class_registered w = 0 \<and> (\<forall>b\<in>set (register_results w). \<not> b) \<longrightarrow>
      (\<exists>w'. law_create_all True code calls w = Inr (replicate (length calls) None, w')
         \<and> registrations w' = registrations w @ replicate (length calls) False))"
  using law_create_all_unregistered [of w ndebug code calls]
    law_create_all_registered [of w ndebug code calls]
    law_create_all_fails [of w code calls]
  by blast

text \<open>Witness of C1 as amended: the two calls in the process that refuses the first
  registration, and in a process that refuses all.\<close>

theorem law_create_all_registration_witness:
  "class_registered retry = 0
 \<and> law_create_all True test_window two_calls retry =
     Inr ([None, Some 7],
          (one_window fresh_data)\<lparr>law_error := LAW_ERROR_CREATE_WINDOW,
             trace := [Registered False, Registered True, Created (Some 7)]\<rparr>)
 \<and> (\<exists>k\<le>length two_calls.
       [False, True] = registrations retry @ replicate k False @ [True]
     \<and> take k [None, Some (7::HWND)] = replicate k None)
 \<and> (\<exists>w'. law_create_all True test_window two_calls start = Inr ([None, None], w')
       \<and> registrations w' = [False, False])"
proof -
  let ?W = "(one_window fresh_data)\<lparr>law_error := LAW_ERROR_CREATE_WINDOW,
             trace := [Registered False, Registered True, Created (Some 7)]\<rparr>"
  have r: "class_registered retry = 0" by (simp add: retry_def start_def)
  have s: "class_registered start = 0 \<and> (\<forall>b\<in>set (register_results start). \<not> b)"
    by (simp add: start_def)
  have e: "registrations start = []" by (simp add: registrations_def start_def)
  have t: "registrations ?W = [False, True]"
    by (simp add: registrations_def)
  have c: "class_registered ?W \<noteq> 0"
    by (simp add: one_window_def start_def)
  note all = law_create_all_registration [of retry True test_window two_calls]
  from all have "\<exists>k\<le>length two_calls.
          registrations ?W =
            registrations retry @ replicate k False @
              (if class_registered ?W = 0 then [] else [True])
        \<and> take k [None, Some (7::HWND)] = replicate k None
        \<and> (class_registered ?W = 0 \<longrightarrow> k = length two_calls)"
    using r retry_run by blast
  then have 1: "\<exists>k\<le>length two_calls.
       [False, True] = registrations retry @ replicate k False @ [True]
     \<and> take k [None, Some (7::HWND)] = replicate k None"
    unfolding t using c by auto
  from law_create_all_registration [of start True test_window two_calls] s
  have "\<exists>w'. law_create_all True test_window two_calls start =
            Inr (replicate (length two_calls) None, w')
         \<and> registrations w' = registrations start @ replicate (length two_calls) False"
    by blast
  then have 2: "\<exists>w'. law_create_all True test_window two_calls start = Inr ([None, None], w')
       \<and> registrations w' = [False, False]"
    by (simp add: e two_calls_def)
  show ?thesis using r retry_run 1 2 by simp
qed

subsection \<open>Destruction\<close>

lemma law_wrapperDestroy_absent:
  assumes "GetWindowLongPtrW h w = Some p" "heap w p = Some d"
    "window_destroy (window (event d)) = None"
  shows "law_wrapperDestroy code h uMsg wp lp w = Inr (DefWindowProcW h uMsg wp lp w)"
  using assms by (simp add: law_wrapperDestroy_def EVENT_Some)

lemma law_wrapperDestroy_callback:
  assumes "GetWindowLongPtrW h w = Some p" "heap w p = Some d"
    "window_destroy (window (event d)) = Some f"
  shows "law_wrapperDestroy code h uMsg wp lp w =
    (case free p (invoke code f (FuncWinData h p) w) of
       Inl e \<Rightarrow> Inl e | Inr w' \<Rightarrow> Inr (0, w'))"
  using assms by (simp add: law_wrapperDestroy_def EVENT_Some)

text \<open>
  C2 (the code departs from the claim).  The claim: the destruction notification frees
  the window data exactly once, with or without a destroy callback.  Without a
  callback \<^verbatim>\<open>__law_wrapperDestroy\<close> returns the default handling before it reaches
  \<^verbatim>\<open>free\<close>: after \<^verbatim>\<open>law_destroy\<close> of the window of the test program, which assigns
  no destroy callback, the window is gone, nothing was freed, and block 100 is still
  allocated.
\<close>

theorem law_destroy_without_callback_keeps_state:
  "law_destroy test_window 7 (one_window fresh_data) =
     Inr ((one_window fresh_data)
            \<lparr>trace := trace (one_window fresh_data) @
                       [DestroyRequested 7, DefaultHandling 7 WM_DESTROY 0 0],
              windows := Map.empty\<rparr>)
   \<and> heap (one_window fresh_data) 100 = Some fresh_data"
proof -
  have s: "GetWindowLongPtrW 7 (emit (DestroyRequested 7) (one_window fresh_data)) = Some 100"
    by simp
  have h: "heap (emit (DestroyRequested 7) (one_window fresh_data)) 100 = Some fresh_data"
    by (simp add: emit_def)
  have a: "window_destroy (window (event fresh_data)) = None"
    by (simp add: fresh_data_def absent_def)
  show ?thesis
    unfolding law_destroy_def DestroyWindow_def Let_def
    by (simp add: law_wrapperDestroy_absent [OF s h a] DefWindowProcW_def)
       (simp add: emit_def one_window_def start_def)
qed

subsection \<open>Maximize\<close>

lemma law_proc_maximize:
  assumes "ucast (wParam AND 0xFFF0) = SC_MAXIMIZE" "GetWindowLongPtrW hwnd w = Some p"
    "heap w p = Some d" "window_maximize (window (event d)) = Some f"
  shows "law_proc ndebug code hwnd WM_SYSCOMMAND wParam lParam w =
           Inr (0, invoke code f (FuncWinData hwnd p) w)"
proof -
  have ne: "SC_MAXIMIZE \<noteq> SC_MINIMIZE" by (simp add: SC_MAXIMIZE_def SC_MINIMIZE_def)
  show ?thesis
    unfolding law_proc_WM_SYSCOMMAND using assms(1) ne
    by (simp add: law_wrapperSysCommand_def Let_def
        wrapper_callback [where slot = "\<lambda>ev. window_maximize (window ev)", OF assms(2,3,4)])
qed

lemma main_window_on_maximize:
  "invoke test_window on_maximize (FuncWinData 7 100) main_window =
     (one_window (set_maximize (Some another_maximize) (set_close (Some on_close) fresh_data)))
       \<lparr>windows := [7 \<mapsto> \<lparr>GWLP_USERDATA = Some 100, window_text = Some ''Maximized Window''\<rparr>],
        trace := [Registered True, Created (Some 7), Invoked on_maximize (FuncWinData 7 100),
                  Maximized 7]\<rparr>"
  by (simp add: invoke_def test_window_def on_maximize_def on_close_def another_maximize_def
      main_window_def one_window_def start_def emit_def law_maximize_def law_setTitle_def
      store_def set_maximize_def set_close_def)

lemma main_window_twice:
  "trace (invoke test_window another_maximize (FuncWinData 7 100)
            (invoke test_window on_maximize (FuncWinData 7 100) main_window)) =
     [Registered True, Created (Some 7), Invoked on_maximize (FuncWinData 7 100), Maximized 7,
      Invoked another_maximize (FuncWinData 7 100), Maximized 7]"
  by (simp add: main_window_on_maximize)
     (simp add: invoke_def test_window_def on_maximize_def on_close_def another_maximize_def
      one_window_def start_def emit_def law_maximize_def law_setTitle_def store_def)

subsection \<open>The slot is read at the dispatch\<close>

lemma wrapper_eq:
  assumes "GetWindowLongPtrW h w = Some p" "heap w p = Some d"
  shows "wrapper code slot args h uMsg wp lp w =
    (case slot (event d) of None \<Rightarrow> Inr (DefWindowProcW h uMsg wp lp w)
     | Some f \<Rightarrow> Inr (0, invoke code f (args h p) w))"
  using assms by (simp add: wrapper_def EVENT_Some)

lemmas mouse_defs = LAW_MOUSE_LEFT_def LAW_MOUSE_RIGHT_def LAW_MOUSE_MIDDLE_def
  LAW_MOUSE_X1_def LAW_MOUSE_X2_def XBUTTON1_def GET_XBUTTON_WPARAM_def
  GET_WHEEL_DELTA_WPARAM_def

text \<open>The window procedure on a notification of a single-call kind.\<close>

lemma law_proc_single_call:
  assumes "single_call_slot uMsg wParam = Some slot"
    "GetWindowLongPtrW hwnd w = Some p" "heap w p = Some d"
  shows "law_proc ndebug code hwnd uMsg wParam lParam w =
           (case slot (event d) of
              None \<Rightarrow> Inr (DefWindowProcW hwnd uMsg wParam lParam w)
            | Some f \<Rightarrow>
                Inr (0, invoke code f (single_call_args uMsg wParam lParam hwnd p) w))"
  using assms(1) unfolding single_call_slot_def
  apply (simp only: split: if_splits)
  apply (simp_all add: WM_defs split del: if_split)
  apply safe
  apply (unfold law_proc_def simple_wrappers law_wrapperSysCommand_def law_wrapperShow_def
    Let_def single_call_args_def mouse_defs wrapper_eq [OF assms(2,3)])
  apply (simp_all add: WM_defs split del: if_split cong: option.case_cong if_cong)
  done

lemma law_proc_pen:
  assumes "GetWindowLongPtrW hwnd w = Some p" "heap w p = Some d"
  shows "law_proc ndebug code hwnd WM_POINTERUPDATE wParam lParam w =
           (case pen (event d) of
              None \<Rightarrow> Inr (DefWindowProcW hwnd WM_POINTERUPDATE wParam lParam w)
            | Some f \<Rightarrow>
                (case GetPointerPenInfo (GET_POINTERID_WPARAM wParam) w of
                   None \<Rightarrow> Inr (0, w)
                 | Some pen_info \<Rightarrow>
                     Inr (0, invoke code f
                               (FuncWinDataUintIntIntInt hwnd p (GET_POINTERID_WPARAM wParam)
                                  (pressure pen_info) (tiltX pen_info) (tiltY pen_info)) w)))"
  unfolding law_proc_WM_POINTERUPDATE law_wrapperPointerUpdate_def Let_def
  by (simp add: EVENT_Some [OF assms])

lemma law_proc_destroy:
  assumes "GetWindowLongPtrW hwnd w = Some p" "heap w p = Some d"
  shows "law_proc ndebug code hwnd WM_DESTROY wParam lParam w =
           (case window_destroy (window (event d)) of
              None \<Rightarrow> Inr (DefWindowProcW hwnd WM_DESTROY wParam lParam w)
            | Some f \<Rightarrow>
                (case free p (invoke code f (FuncWinData hwnd p) w) of
                   Inl e \<Rightarrow> Inl e
                 | Inr w' \<Rightarrow> Inr (0, w')))"
  by (simp add: law_proc_WM_DESTROY law_wrapperDestroy_def EVENT_Some [OF assms])

text \<open>
  C8 (counterexample to the claim as stated).  The claim: for every notification kind a
  dispatch in flight is not affected by a change of the slot made after its lookup.
  The touch wrapper reads the slot again for every touch point: of the two points of
  one touch notification the first goes to the callback at address 4, which installs
  the callback at address 8, and the second goes to that one.
\<close>

theorem law_wrapperTouch_slot_read_per_point:
  "map_sum id (\<lambda>r. trace (snd r)) (law_proc True touch_swap 7 WM_TOUCH 2 55 two_touches) =
     Inr [Registered True, Created (Some 7), Invoked 4 (FuncWinDataIntInt 7 100 12 56),
          Invoked 8 (FuncWinDataIntInt 7 100 34 78), TouchHandleClosed 55]"
  by code_simp

text \<open>
  C8 (as amended).  For every notification kind that the dispatcher answers with one
  call (close, resize, move, focus, unfocus, redraw, minimize, maximize, show, hide, key
  down and up, mouse move, button down and up, wheel) the slot is read from the window
  data at the time of the dispatch: the callback found there is called once with the
  normalized parameters and nothing follows, and default handling runs when the slot is
  absent.  So when that callback leaves another one in the slot, the dispatch in flight
  is the call of the first and the next notification of the kind calls the one
  installed.  Pen update and destroy read their slot at the dispatch in the same way;
  the pen callback is called when the pen query succeeds, and the destroy callback is
  followed by the release of the window data.
\<close>

theorem law_proc_reads_slot_at_dispatch:
  "(single_call_slot uMsg wParam = Some slot \<and> GetWindowLongPtrW hwnd w = Some p
      \<and> heap w p = Some d \<longrightarrow>
      law_proc ndebug code hwnd uMsg wParam lParam w =
        (case slot (event d) of
           None \<Rightarrow> Inr (DefWindowProcW hwnd uMsg wParam lParam w)
         | Some f \<Rightarrow>
             Inr (0, invoke code f (single_call_args uMsg wParam lParam hwnd p) w)))
 \<and> (single_call_slot uMsg wParam = Some slot \<and> single_call_slot uMsg wParam' = Some slot
      \<and> GetWindowLongPtrW hwnd w = Some p \<and> heap w p = Some d \<and> slot (event d) = Some f
      \<and> v = invoke code f (single_call_args uMsg wParam lParam hwnd p) w
      \<and> GetWindowLongPtrW hwnd v = Some p' \<and> heap v p' = Some d'
      \<and> slot (event d') = Some g \<longrightarrow>
      law_proc ndebug code hwnd uMsg wParam lParam w = Inr (0, v)
      \<and> law_proc ndebug code hwnd uMsg wParam' lParam' v =
          Inr (0, invoke code g (single_call_args uMsg wParam' lParam' hwnd p') v))
 \<and> (GetWindowLongPtrW hwnd w = Some p \<and> heap w p = Some d \<longrightarrow>
      law_proc ndebug code hwnd WM_POINTERUPDATE wParam lParam w =
        (case pen (event d) of
           None \<Rightarrow> Inr (DefWindowProcW hwnd WM_POINTERUPDATE wParam lParam w)
         | Some f \<Rightarrow>
             (case GetPointerPenInfo (GET_POINTERID_WPARAM wParam) w of
                None \<Rightarrow> Inr (0, w)
              | Some pen_info \<Rightarrow>
                  Inr (0, invoke code f
                            (FuncWinDataUintIntIntInt hwnd p (GET_POINTERID_WPARAM wParam)
                               (pressure pen_info) (tiltX pen_info) (tiltY pen_info)) w))))
 \<and> (GetWindowLongPtrW hwnd w = Some p \<and> heap w p = Some d \<longrightarrow>
      law_proc ndebug code hwnd WM_DESTROY wParam lParam w =
        (case window_destroy (window (event d)) of
           None \<Rightarrow> Inr (DefWindowProcW hwnd WM_DESTROY wParam lParam w)
         | Some f \<Rightarrow>
             (case free p (invoke code f (FuncWinData hwnd p) w) of
                Inl e \<Rightarrow> Inl e
              | Inr w' \<Rightarrow> Inr (0, w'))))"
proof (intro conjI impI)
  assume "single_call_slot uMsg wParam = Some slot \<and> GetWindowLongPtrW hwnd w = Some p
      \<and> heap w p = Some d"
  then show "law_proc ndebug code hwnd uMsg wParam lParam w =
        (case slot (event d) of
           None \<Rightarrow> Inr (DefWindowProcW hwnd uMsg wParam lParam w)
         | Some f \<Rightarrow>
             Inr (0, invoke code f (single_call_args uMsg wParam lParam hwnd p) w))"
    by (simp add: law_proc_single_call)
next
  assume a: "single_call_slot uMsg wParam = Some slot \<and> single_call_slot uMsg wParam' = Some slot
      \<and> GetWindowLongPtrW hwnd w = Some p \<and> heap w p = Some d \<and> slot (event d) = Some f
      \<and> v = invoke code f (single_call_args uMsg wParam lParam hwnd p) w
      \<and> GetWindowLongPtrW hwnd v = Some p' \<and> heap v p' = Some d'
      \<and> slot (event d') = Some g"
  then show "law_proc ndebug code hwnd uMsg wParam lParam w = Inr (0, v)"
    by (simp add: law_proc_single_call)
  from a have s: "single_call_slot uMsg wParam' = Some slot"
    and g: "GetWindowLongPtrW hwnd v = Some p'" and h: "heap v p' = Some d'"
    and sl: "slot (event d') = Some g"
    by blast+
  show "law_proc ndebug code hwnd uMsg wParam' lParam' v =
          Inr (0, invoke code g (single_call_args uMsg wParam' lParam' hwnd p') v)"
    by (simp add: law_proc_single_call [OF s g h] sl)
next
  assume "GetWindowLongPtrW hwnd w = Some p \<and> heap w p = Some d"
  then show "law_proc ndebug code hwnd WM_POINTERUPDATE wParam lParam w =
        (case pen (event d) of
           None \<Rightarrow> Inr (DefWindowProcW hwnd WM_POINTERUPDATE wParam lParam w)
         | Some f \<Rightarrow>
             (case GetPointerPenInfo (GET_POINTERID_WPARAM wParam) w of
                None \<Rightarrow> Inr (0, w)
              | Some pen_info \<Rightarrow>
                  Inr (0, invoke code f
                            (FuncWinDataUintIntIntInt hwnd p (GET_POINTERID_WPARAM wParam)
                               (pressure pen_info) (tiltX pen_info) (tiltY pen_info)) w)))"
    by (simp add: law_proc_pen)
next
  assume "GetWindowLongPtrW hwnd w = Some p \<and> heap w p = Some d"
  then show "law_proc ndebug code hwnd WM_DESTROY wParam lParam w =
        (case window_destroy (window (event d)) of
           None \<Rightarrow> Inr (DefWindowProcW hwnd WM_DESTROY wParam lParam w)
         | Some f \<Rightarrow>
             (case free p (invoke code f (FuncWinData hwnd p) w) of
                Inl e \<Rightarrow> Inl e
              | Inr w' \<Rightarrow> Inr (0, w')))"
    by (simp add: law_proc_destroy)
qed

text \<open>Witness of C8 as amended: the test program, whose \<^verbatim>\<open>on_maximize\<close> installs
  \<^verbatim>\<open>another_maximize\<close>; two maximize commands call the one and then the other.\<close>

theorem law_proc_reads_slot_at_dispatch_witness:
  "law_proc True test_window 7 WM_SYSCOMMAND 0xF030 0 main_window =
     Inr (0, invoke test_window on_maximize (FuncWinData 7 100) main_window)
   \<and> law_proc True test_window 7 WM_SYSCOMMAND 0xF030 0
       (invoke test_window on_maximize (FuncWinData 7 100) main_window) =
     Inr (0, invoke test_window another_maximize (FuncWinData 7 100)
               (invoke test_window on_maximize (FuncWinData 7 100) main_window))
   \<and> trace (invoke test_window another_maximize (FuncWinData 7 100)
              (invoke test_window on_maximize (FuncWinData 7 100) main_window)) =
       [Registered True, Created (Some 7), Invoked on_maximize (FuncWinData 7 100),
        Maximized 7, Invoked another_maximize (FuncWinData 7 100), Maximized 7]
   \<and> on_maximize \<noteq> another_maximize"
proof -
  let ?w1 = "invoke test_window on_maximize (FuncWinData 7 100) main_window"
  have sc: "single_call_slot WM_SYSCOMMAND 0xF030 = Some (\<lambda>ev. window_maximize (window ev))"
    by (simp add: single_call_slot_def WM_defs SC_MAXIMIZE_def SC_MINIMIZE_def)
  have ar: "single_call_args WM_SYSCOMMAND 0xF030 0 7 100 = FuncWinData 7 100"
    by (simp add: single_call_args_def WM_defs)
  have s: "GetWindowLongPtrW 7 main_window = Some 100"
    by (simp add: main_window_def)
  have h: "heap main_window 100 =
      Some (set_maximize (Some on_maximize) (set_close (Some on_close) fresh_data))"
    by (simp add: main_window_def)
  have m: "window_maximize (window (event
      (set_maximize (Some on_maximize) (set_close (Some on_close) fresh_data)))) = Some on_maximize"
    by (simp add: set_maximize_def)
  have s': "GetWindowLongPtrW 7 ?w1 = Some 100"
    by (simp add: main_window_on_maximize GetWindowLongPtrW_def)
  have h': "heap ?w1 100 =
      Some (set_maximize (Some another_maximize) (set_close (Some on_close) fresh_data))"
    by (simp add: main_window_on_maximize one_window_def)
  have m': "window_maximize (window (event
      (set_maximize (Some another_maximize) (set_close (Some on_close) fresh_data)))) =
      Some another_maximize"
    by (simp add: set_maximize_def)
  have n: "on_maximize \<noteq> another_maximize"
    by (simp add: on_maximize_def another_maximize_def)
  from law_proc_reads_slot_at_dispatch [where uMsg = WM_SYSCOMMAND and wParam = "0xF030" and wParam' = "0xF030"
      and slot = "\<lambda>ev. window_maximize (window ev)" and hwnd = 7 and w = main_window
      and p = 100 and p' = 100 and f = on_maximize and g = another_maximize
      and d = "set_maximize (Some on_maximize) (set_close (Some on_close) fresh_data)"
      and d' = "set_maximize (Some another_maximize) (set_close (Some on_close) fresh_data)"
      and v = ?w1 and ndebug = True and code = test_window and lParam = 0 and lParam' = 0]
    sc ar s h m s' h' m'
  have "law_proc True test_window 7 WM_SYSCOMMAND 0xF030 0 main_window = Inr (0, ?w1)
    \<and> law_proc True test_window 7 WM_SYSCOMMAND 0xF030 0 ?w1 =
        Inr (0, invoke test_window another_maximize (FuncWinData 7 100) ?w1)"
    by simp
  with n show ?thesis by (simp add: main_window_twice)
qed

subsection \<open>Touch\<close>

lemma unat_count: "unat (ucast (c :: 16 word) :: UINT) = unat c"
proof -
  have "uint (ucast c :: UINT) = uint c"
    by (rule uint_up_ucast) (simp add: is_up)
  then show ?thesis by (simp only: unat_eq_nat_uint)
qed

lemma law_wrapperTouch_overrun:
  assumes "GetWindowLongPtrW h w = Some p" "heap w p = Some d"
    "window_touch (window (event d)) = Some f" "touch_input_info w lp = Some pts"
    "10 < unat (LOWORD wp)" "10 < length pts"
  shows "law_wrapperTouch code h u wp lp w = Inl BufferOverrun"
  using assms
  by (simp add: law_wrapperTouch_def EVENT_Some Let_def GetTouchInputInfo_def unat_count)

lemma touch_loop_in_bounds:
  assumes stable: "\<And>a v. GetWindowLongPtrW h (code f a v) = GetWindowLongPtrW h v
                         \<and> heap (code f a v) p = heap v p"
    and "GetWindowLongPtrW h w = Some p" "heap w p = Some d"
      "window_touch (window (event d)) = Some f"
    and "\<forall>i\<in>set idxs. i < 10 \<and> i < length buf"
  shows "touch_loop code h buf idxs w =
           Inr (fold (\<lambda>i. invoke code f
                   (FuncWinDataIntInt h p (c_div (touch_x (buf ! i)) 100)
                      (c_div (touch_y (buf ! i)) 100))) idxs w)"
  using assms(2-)
proof (induction idxs arbitrary: w)
  case Nil
  then show ?case by simp
next
  case (Cons i rest)
  let ?w1 = "invoke code f (FuncWinDataIntInt h p (c_div (touch_x (buf ! i)) 100)
                      (c_div (touch_y (buf ! i)) 100)) w"
  have s: "GetWindowLongPtrW h ?w1 = Some p" and hp: "heap ?w1 p = Some d"
    using Cons.prems(1,2) by (simp_all add: invoke_def stable)
  have r: "\<forall>i\<in>set rest. i < 10 \<and> i < length buf" using Cons.prems(4) by simp
  have i: "i < 10" "i < length buf" using Cons.prems(4) by simp_all
  from Cons.IH [OF s hp Cons.prems(3) r] i show ?case
    by (simp add: EVENT_Some [OF Cons.prems(1,2)] Cons.prems(3))
qed

lemma law_wrapperTouch_in_bounds:
  assumes stable: "\<And>a v. GetWindowLongPtrW h (code f a v) = GetWindowLongPtrW h v
                         \<and> heap (code f a v) p = heap v p"
    and "GetWindowLongPtrW h w = Some p" "heap w p = Some d"
      "window_touch (window (event d)) = Some f"
    and "touch_input_info w lp = Some pts" "length pts = unat (LOWORD wp)" "length pts \<le> 10"
  shows "law_wrapperTouch code h u wp lp w =
           Inr (0, CloseTouchInputHandle lp
                     (fold (\<lambda>i. invoke code f
                        (FuncWinDataIntInt h p (c_div (touch_x (pts ! i)) 100)
                           (c_div (touch_y (pts ! i)) 100))) [0..<length pts] w))"
proof -
  have loop: "touch_loop code h pts [0..<length pts] w =
      Inr (fold (\<lambda>i. invoke code f
                   (FuncWinDataIntInt h p (c_div (touch_x (pts ! i)) 100)
                      (c_div (touch_y (pts ! i)) 100))) [0..<length pts] w)"
  proof (rule touch_loop_in_bounds [where f = f and p = p and d = d])
    show "GetWindowLongPtrW h (code f a v) = GetWindowLongPtrW h v
          \<and> heap (code f a v) p = heap v p" for a v
      by (rule stable)
    show "\<forall>i\<in>set [0..<length pts]. i < 10 \<and> i < length pts"
      using assms(7) by auto
  qed (fact assms(2) assms(3) assms(4))+
  have n: "unat (ucast (LOWORD wp) :: UINT) = length pts"
    by (simp add: unat_count assms(6))
  show ?thesis
    using assms(5,7)
    by (simp add: law_wrapperTouch_def EVENT_Some [OF assms(2,3)] assms(4) Let_def
        GetTouchInputInfo_def n loop)
qed

text \<open>
  C5 (the code departs from the claim).  The claim: the count the backend reports never
  leads to a read or a write past the buffer of touch points.  The buffer has 10
  elements and the count is passed on as it comes: with 11 touch points
  \<^verbatim>\<open>GetTouchInputInfo\<close> is asked to store 11 entries in it.  (Up to 10 points the
  callback is called once for each point, with the coordinates divided by 100.)
\<close>

theorem law_wrapperTouch_eleven_points: "law_wrapperTouch test_window 7 WM_TOUCH 11 55 touch_window = Inl BufferOverrun"
proof (rule law_wrapperTouch_overrun)
  show "GetWindowLongPtrW 7 touch_window = Some 100"
    by (simp add: touch_window_def GetWindowLongPtrW_def)
  show "heap touch_window 100 = Some (set_touch (Some 4) fresh_data)"
    by (simp add: touch_window_def)
  show "window_touch (window (event (set_touch (Some 4) fresh_data))) = Some 4"
    by (simp add: set_touch_def)
  show "touch_input_info touch_window 55 = Some (replicate 11 \<lparr>touch_x = 1234, touch_y = 5678, touch_dwID = 0, touch_dwMask = 0\<rparr>)"
    by (simp add: touch_window_def)
  show "10 < unat (LOWORD 11)" by (simp add: LOWORD_def)
  show "10 < length (replicate 11 \<lparr>touch_x = 1234, touch_y = 5678, touch_dwID = 0, touch_dwMask = (0::32 word)\<rparr>)" by simp
qed

subsection \<open>Pen\<close>

text \<open>
  C10.  With a pen callback in the slot, the pointer-update wrapper calls it only when
  the backend has pen data for the pointer, with the pointer identifier, the pressure
  and the two tilts.  When the query fails the wrapper returns 0 and the process is the
  one it was: no callback, no default handling, \<^verbatim>\<open>law_error\<close> as before.
\<close>

theorem law_wrapperPointerUpdate_pen_query:
  assumes "GetWindowLongPtrW hwnd w = Some win_data" "heap w win_data = Some d"
    "pen (event d) = Some f"
  shows "(GetPointerPenInfo (GET_POINTERID_WPARAM wParam) w = None \<longrightarrow>
           law_wrapperPointerUpdate code hwnd uMsg wParam lParam w = Inr (0, w))
       \<and> (\<forall>pen_info. GetPointerPenInfo (GET_POINTERID_WPARAM wParam) w = Some pen_info \<longrightarrow>
           law_wrapperPointerUpdate code hwnd uMsg wParam lParam w =
             Inr (0, invoke code f
                       (FuncWinDataUintIntIntInt hwnd win_data (GET_POINTERID_WPARAM wParam)
                          (pressure pen_info) (tiltX pen_info) (tiltY pen_info)) w))"
  using assms by (simp add: law_wrapperPointerUpdate_def EVENT_Some Let_def)

text \<open>Witness of C10: pointer 2, for which the query fails, and pointer 1.\<close>

theorem law_wrapperPointerUpdate_pen_query_witness:
  "law_wrapperPointerUpdate test_window 7 WM_POINTERUPDATE 2 0 pen_window = Inr (0, pen_window)
 \<and> law_wrapperPointerUpdate test_window 7 WM_POINTERUPDATE 1 0 pen_window =
     Inr (0, invoke test_window 5 (FuncWinDataUintIntIntInt 7 100 1 512 10 (- 3)) pen_window)"
proof -
  have s: "GetWindowLongPtrW 7 pen_window = Some 100"
    by (simp add: pen_window_def GetWindowLongPtrW_def)
  have h: "heap pen_window 100 = Some (set_pen (Some 5) fresh_data)"
    by (simp add: pen_window_def)
  have p: "pen (event (set_pen (Some 5) fresh_data)) = Some 5"
    by (simp add: set_pen_def)
  have i1: "GET_POINTERID_WPARAM 1 = 1" and i2: "GET_POINTERID_WPARAM 2 = 2"
    by (simp_all add: GET_POINTERID_WPARAM_def LOWORD_def)
  have n: "GetPointerPenInfo 2 pen_window = None"
    and y: "GetPointerPenInfo 1 pen_window = Some \<lparr>pressure = 512, tiltX = 10, tiltY = - 3\<rparr>"
    by (simp_all add: GetPointerPenInfo_def pen_window_def)
  show ?thesis
    using law_wrapperPointerUpdate_pen_query [OF s h p, of 2 test_window WM_POINTERUPDATE 0]
      law_wrapperPointerUpdate_pen_query [OF s h p, of 1 test_window WM_POINTERUPDATE 0] n y
    by (simp add: i1 i2)
qed

subsection \<open>The message pump\<close>

text \<open>A dispatch leaves the pending messages as they are when the callbacks do.\<close>

lemma queue_DefWindowProcW:
  "DefWindowProcW h u wp lp w = (r, w') \<Longrightarrow> queue w' = queue w"
  by (auto simp: DefWindowProcW_def)

lemma queue_invoke:
  assumes "\<And>f a v. queue (code f a v) = queue v"
  shows "queue (invoke code f a w) = queue w"
  by (simp add: invoke_def assms)

lemma queue_wrapper:
  assumes "\<And>f a v. queue (code f a v) = queue v"
    and "wrapper code slot args h u wp lp w = Inr (r, w')"
  shows "queue w' = queue w"
  using assms(2)
  by (auto simp: wrapper_def DefWindowProcW_def queue_invoke [OF assms(1)]
           split: sum.splits option.splits)

lemma queue_free: "free p w = Inr w' \<Longrightarrow> queue w' = queue w"
  by (auto simp: free_def split: if_splits)

lemma queue_law_wrapperDestroy:
  assumes "\<And>f a v. queue (code f a v) = queue v"
    and "law_wrapperDestroy code h u wp lp w = Inr (r, w')"
  shows "queue w' = queue w"
  using assms(2)
  by (auto simp: law_wrapperDestroy_def DefWindowProcW_def queue_invoke [OF assms(1)]
           split: sum.splits option.splits dest!: queue_free)

lemma queue_DestroyWindow:
  assumes "\<And>f a v. queue (code f a v) = queue v"
    and "DestroyWindow code h w = Inr w'"
  shows "queue w' = queue w"
  using assms(2)
  by (auto simp: DestroyWindow_def Let_def split: if_splits sum.splits
           dest!: queue_law_wrapperDestroy [OF assms(1)])

lemma queue_law_wrapperCreate:
  assumes "\<And>f a v. queue (code f a v) = queue v"
    and "law_wrapperCreate ndebug code h u wp lp w = Inr (r, w')"
  shows "queue w' = queue w"
  using assms(2)
  by (auto simp: law_wrapperCreate_def malloc_def SetWindowLongPtrW_def
           split: if_splits sum.splits option.splits list.splits prod.splits
           dest!: queue_DestroyWindow [OF assms(1)])

lemma queue_touch_loop:
  assumes "\<And>f a v. queue (code f a v) = queue v"
  shows "touch_loop code h buf idxs w = Inr w' \<Longrightarrow> queue w' = queue w"
proof (induction idxs arbitrary: w)
  case Nil
  then show ?case by simp
next
  case (Cons i rest)
  from Cons.prems obtain p ev f where
    "touch_loop code h buf rest
       (invoke code f (FuncWinDataIntInt h p (c_div (touch_x (buf ! i)) 100)
          (c_div (touch_y (buf ! i)) 100)) w) = Inr w'"
    by (auto split: if_splits sum.splits option.splits)
  from Cons.IH [OF this] show ?case by (simp add: queue_invoke [OF assms])
qed

lemma queue_law_wrapperTouch:
  assumes "\<And>f a v. queue (code f a v) = queue v"
    and "law_wrapperTouch code h u wp lp w = Inr (r, w')"
  shows "queue w' = queue w"
  using assms(2)
  by (auto simp: law_wrapperTouch_def DefWindowProcW_def Let_def CloseTouchInputHandle_def
           split: sum.splits option.splits dest!: queue_touch_loop [OF assms(1)])

lemma queue_law_wrapperPointerUpdate:
  assumes "\<And>f a v. queue (code f a v) = queue v"
    and "law_wrapperPointerUpdate code h u wp lp w = Inr (r, w')"
  shows "queue w' = queue w"
  using assms(2)
  by (auto simp: law_wrapperPointerUpdate_def DefWindowProcW_def Let_def
           queue_invoke [OF assms(1)] split: sum.splits option.splits)

lemma queue_law_wrapperFileDrop:
  "law_wrapperFileDrop code h u wp lp w = Inr (r, w') \<Longrightarrow> queue w' = queue w"
  by (auto simp: law_wrapperFileDrop_def DefWindowProcW_def split: sum.splits option.splits)

lemma queue_law_wrapperSysCommand:
  assumes "\<And>f a v. queue (code f a v) = queue v"
    and "law_wrapperSysCommand code h u wp lp w = Inr (r, w')"
  shows "queue w' = queue w"
  using assms(2)
  by (auto simp: law_wrapperSysCommand_def DefWindowProcW_def Let_def
           split: if_splits dest!: queue_wrapper [OF assms(1)])

lemma queue_law_wrapperShow:
  assumes "\<And>f a v. queue (code f a v) = queue v"
    and "law_wrapperShow code h u wp lp w = Inr (r, w')"
  shows "queue w' = queue w"
  using assms(2)
  by (auto simp: law_wrapperShow_def split: if_splits dest!: queue_wrapper [OF assms(1)])

lemma queue_law_proc:
  assumes "\<And>f a v. queue (code f a v) = queue v"
    and "law_proc ndebug code h u wp lp w = Inr (r, w')"
  shows "queue w' = queue w"
  using assms(2) unfolding law_proc_def simple_wrappers
  by (auto split: if_splits
      dest: queue_wrapper [OF assms(1)] queue_law_wrapperSysCommand [OF assms(1)]
        queue_law_wrapperShow [OF assms(1)] queue_law_wrapperTouch [OF assms(1)]
        queue_law_wrapperPointerUpdate [OF assms(1)] queue_law_wrapperFileDrop
        queue_law_wrapperCreate [OF assms(1)] queue_law_wrapperDestroy [OF assms(1)]
        queue_DefWindowProcW)

lemma queue_DispatchMessageW:
  assumes "\<And>f a v. queue (code f a v) = queue v"
    and "DispatchMessageW ndebug code m w = Inr w'"
  shows "queue w' = queue w"
  using assms(2)
  by (auto simp: DispatchMessageW_def split: option.splits if_splits sum.splits
      dest: queue_law_proc [OF assms(1)])

lemma peek_shorter: "peek hWnd q = Some (m, ms) \<Longrightarrow> length ms < length q"
  by (induction q arbitrary: m ms) (auto split: if_splits option.splits)

lemma PeekMessageW_shorter:
  "PeekMessageW hWnd w = Some (m, w1) \<Longrightarrow> length (queue w1) < length (queue w)"
  by (auto simp: PeekMessageW_def split: option.splits dest: peek_shorter)

lemma PeekMessageW_empty: "queue w = [] \<Longrightarrow> PeekMessageW hWnd w = None"
  by (simp add: PeekMessageW_def)

lemma PeekMessageW_any:
  "queue w = m # ms \<Longrightarrow> PeekMessageW None w = Some (m, w\<lparr>queue := ms\<rparr>)"
  by (simp add: PeekMessageW_def)

text \<open>With such callbacks \<^verbatim>\<open>law_update\<close> returns: every round takes one message.\<close>

lemma law_update_returns:
  assumes "\<And>f a v. queue (code f a v) = queue v"
  shows "\<exists>r. law_update ndebug code hWnd w = Some r"
proof (induction "length (queue w)" arbitrary: w rule: less_induct)
  case less
  show ?case
  proof (cases "PeekMessageW hWnd w")
    case None
    then show ?thesis by (subst law_update.simps) simp
  next
    case (Some mw)
    obtain m w1 where mw: "mw = (m, w1)" by (cases mw)
    show ?thesis
    proof (cases "msg_message m = WM_QUIT")
      case True
      then show ?thesis using Some mw
        by (subst law_update.simps) (simp split: option.splits)
    next
      case False
      show ?thesis
      proof (cases "DispatchMessageW ndebug code m w1")
        case (Inl e)
        then show ?thesis using Some mw False by (subst law_update.simps) simp
      next
        case (Inr w2)
        have "length (queue w2) < length (queue w)"
          using queue_DispatchMessageW [OF assms Inr] PeekMessageW_shorter Some mw by simp
        from less [OF this] obtain r where "law_update ndebug code hWnd w2 = Some r" ..
        then show ?thesis using Some mw False Inr by (subst law_update.simps) simp
      qed
    qed
  qed
qed

text \<open>
  C6.  \<^verbatim>\<open>law_update\<close> with no pending message returns at once and changes nothing.
  On a pending quit notification it calls the exit function, if one is set, with the
  exit code and returns; what is still pending stays pending.  On any other message it
  dispatches the message and goes on with the rest; a fault in the dispatch ends the
  run.  When no callback touches the pending messages, the call returns.
\<close>

theorem law_update_loop:
  "(PeekMessageW hWnd w = None \<longrightarrow> law_update ndebug code hWnd w = Some (Inr w))
 \<and> (\<forall>m w1. PeekMessageW hWnd w = Some (m, w1) \<and> msg_message m = WM_QUIT \<longrightarrow>
       law_update ndebug code hWnd w =
         Some (Inr (case law_exit_func w1 of None \<Rightarrow> w1
                    | Some f \<Rightarrow> invoke code f (FuncInt (ucast (msg_wParam m))) w1)))
 \<and> (\<forall>m w1. PeekMessageW hWnd w = Some (m, w1) \<and> msg_message m \<noteq> WM_QUIT \<longrightarrow>
       law_update ndebug code hWnd w =
         (case DispatchMessageW ndebug code m w1 of
            Inl e \<Rightarrow> Some (Inl e)
          | Inr w2 \<Rightarrow> law_update ndebug code hWnd w2))
 \<and> ((\<forall>f a v. queue (code f a v) = queue v) \<longrightarrow>
       (\<exists>r. law_update ndebug code hWnd w = Some r))"
proof (intro conjI allI impI)
  assume "PeekMessageW hWnd w = None"
  then show "law_update ndebug code hWnd w = Some (Inr w)"
    by (subst law_update.simps) simp
next
  fix m w1
  assume "PeekMessageW hWnd w = Some (m, w1) \<and> msg_message m = WM_QUIT"
  then show "law_update ndebug code hWnd w =
         Some (Inr (case law_exit_func w1 of None \<Rightarrow> w1
                    | Some f \<Rightarrow> invoke code f (FuncInt (ucast (msg_wParam m))) w1))"
    by (subst law_update.simps) (simp split: option.splits)
next
  fix m w1
  assume "PeekMessageW hWnd w = Some (m, w1) \<and> msg_message m \<noteq> WM_QUIT"
  then show "law_update ndebug code hWnd w =
         (case DispatchMessageW ndebug code m w1 of
            Inl e \<Rightarrow> Some (Inl e)
          | Inr w2 \<Rightarrow> law_update ndebug code hWnd w2)"
    by (subst law_update.simps) simp
next
  assume "\<forall>f a v. queue (code f a v) = queue v"
  then show "\<exists>r. law_update ndebug code hWnd w = Some r"
    using law_update_returns by blast
qed

lemma pending_on_maximize:
  "invoke test_window on_maximize (FuncWinData 7 100) (pending\<lparr>queue := [quit_msg, close_msg]\<rparr>) =
     (one_window (set_maximize (Some another_maximize) (set_close (Some on_close) fresh_data)))
       \<lparr>windows := [7 \<mapsto> \<lparr>GWLP_USERDATA = Some 100, window_text = Some ''Maximized Window''\<rparr>],
        trace := [Registered True, Created (Some 7), Invoked on_maximize (FuncWinData 7 100),
                  Maximized 7],
        law_exit_func := Some 6, queue := [quit_msg, close_msg]\<rparr>"
  by (simp add: invoke_def test_window_def on_maximize_def on_close_def another_maximize_def
      pending_def main_window_def one_window_def start_def emit_def law_maximize_def
      law_setTitle_def store_def set_maximize_def set_close_def)

lemma pending_dispatch:
  "DispatchMessageW True test_window maximize_msg (pending\<lparr>queue := [quit_msg, close_msg]\<rparr>) =
     Inr (invoke test_window on_maximize (FuncWinData 7 100)
            (pending\<lparr>queue := [quit_msg, close_msg]\<rparr>))"
proof -
  let ?W = "pending\<lparr>queue := [quit_msg, close_msg]\<rparr>"
  have a: "ucast ((0xF030 :: WPARAM) AND 0xFFF0) = SC_MAXIMIZE"
    by (simp add: SC_MAXIMIZE_def)
  have s: "GetWindowLongPtrW 7 ?W = Some 100"
    by (simp add: pending_def main_window_def GetWindowLongPtrW_def)
  have h: "heap ?W 100 =
      Some (set_maximize (Some on_maximize) (set_close (Some on_close) fresh_data))"
    by (simp add: pending_def main_window_def)
  have m: "window_maximize (window (event
      (set_maximize (Some on_maximize) (set_close (Some on_close) fresh_data)))) = Some on_maximize"
    by (simp add: set_maximize_def)
  have w: "windows ?W 7 =
      Some \<lparr>GWLP_USERDATA = Some 100, window_text = Some ''Window 1''\<rparr>"
    by (simp add: pending_def main_window_def)
  show ?thesis
    by (simp only: DispatchMessageW_def maximize_msg_def MSG.simps option.case w
        law_proc_maximize [OF a s h m]) simp
qed

text \<open>Witness of C6: nothing pending; and a maximize command, a quit notification and
  a close notification pending, of which the close notification is left.\<close>

theorem law_update_loop_witness:
  "law_update True test_window None main_window = Some (Inr main_window)
 \<and> map_option (map_sum id queue) (law_update True test_window None pending) =
     Some (Inr [close_msg])
 \<and> map_option (map_sum id trace) (law_update True test_window None pending) =
     Some (Inr [Registered True, Created (Some 7), Invoked on_maximize (FuncWinData 7 100),
                Maximized 7, Invoked 6 (FuncInt 3)])
 \<and> (\<exists>r. law_update True idle None pending = Some r)"
proof -
  let ?W1 = "pending\<lparr>queue := [quit_msg, close_msg]\<rparr>"
  let ?W2 = "invoke test_window on_maximize (FuncWinData 7 100) ?W1"
  have 0: "PeekMessageW None main_window = None"
    by (simp add: PeekMessageW_def main_window_def one_window_def start_def)
  have 1: "PeekMessageW None pending = Some (maximize_msg, ?W1)"
    by (simp add: PeekMessageW_def pending_def)
  have 2: "msg_message maximize_msg \<noteq> WM_QUIT"
    by (simp add: maximize_msg_def WM_SYSCOMMAND_def WM_QUIT_def)
  have 3: "PeekMessageW None ?W2 = Some (quit_msg, ?W2\<lparr>queue := [close_msg]\<rparr>)"
    by (simp add: pending_on_maximize PeekMessageW_def)
  have 4: "msg_message quit_msg = WM_QUIT" by (simp add: quit_msg_def)
  have 5: "law_exit_func (?W2\<lparr>queue := [close_msg]\<rparr>) = Some 6"
    by (simp add: pending_on_maximize)
  have i: "\<forall>f a v. queue (idle f a v) = queue v" by (simp add: idle_def)
  have a: "law_update True test_window None main_window = Some (Inr main_window)"
    using law_update_loop [of None main_window True test_window] 0 by simp
  have b: "law_update True test_window None pending = law_update True test_window None ?W2"
    using law_update_loop [of None pending True test_window] 1 2 by (simp add: pending_dispatch)
  have c: "law_update True test_window None ?W2 =
      Some (Inr (invoke test_window 6 (FuncInt (ucast (msg_wParam quit_msg)))
                   (?W2\<lparr>queue := [close_msg]\<rparr>)))"
    using law_update_loop [of None ?W2 True test_window] 3 4 5 by simp
  have d: "\<exists>r. law_update True idle None pending = Some r"
    using law_update_loop [of None pending True idle] i by blast
  have e: "invoke test_window 6 (FuncInt (ucast (msg_wParam quit_msg))) (?W2\<lparr>queue := [close_msg]\<rparr>)
     = emit (Invoked 6 (FuncInt 3)) (?W2\<lparr>queue := [close_msg]\<rparr>)"
    by (simp add: invoke_def test_window_def quit_msg_def)
  have f: "law_update True test_window None pending =
      Some (Inr (emit (Invoked 6 (FuncInt 3)) (?W2\<lparr>queue := [close_msg]\<rparr>)))"
    by (simp only: b c e)
  have g: "queue (emit (Invoked 6 (FuncInt 3)) (?W2\<lparr>queue := [close_msg]\<rparr>)) = [close_msg]"
    by (simp add: emit_def)
  have h: "trace (emit (Invoked 6 (FuncInt 3)) (?W2\<lparr>queue := [close_msg]\<rparr>)) =
      [Registered True, Created (Some 7), Invoked on_maximize (FuncWinData 7 100),
       Maximized 7, Invoked 6 (FuncInt 3)]"
    by (simp add: emit_def pending_on_maximize)
  show ?thesis
    using a d by (simp add: f g h)
qed

subsection \<open>The window data until the application assigns it\<close>






text \<open>What the application's code leaves undisturbed, a dispatch to any window and the
  message pump leave undisturbed.  A destroy callback of another window is followed by
  the release of that window's block, which is not this one: a block as creation left it
  has no destroy callback.\<close>

lemma undisturbed_emit [simp]: "undisturbed h p (emit e v) = undisturbed h p v"
  by (simp add: undisturbed_def emit_def law_getData_def GetWindowLongPtrW_def)






lemma undisturbed_CloseTouchInputHandle [simp]:
  "undisturbed h p (CloseTouchInputHandle lp v) = undisturbed h p v"
  by (simp add: CloseTouchInputHandle_def)
     (simp add: undisturbed_def law_getData_def GetWindowLongPtrW_def)



















end
